theory Spec2Isabelle
  imports Complex_Main
begin

section \<open>Truck dashboard: data model\<close>

text \<open>
  The dashboard (\<^verbatim>\<open>streamlit_app.py\<close>) reads site statistics from JSON. Each entry
  of \<^verbatim>\<open>data\<close> is a dict with a nested \<^verbatim>\<open>'site'\<close> descriptor and numeric
  class-count fields that the code looks up by key, some of them by a key computed at run
  time. The descriptor is a record; the count fields are a map from key to value, so that
  a missing key is visible as the \<^verbatim>\<open>KeyError\<close> Python raises. Python's unbounded
  integers are \<open>int\<close>. Python floats are idealised as rationals: rounding of the
  binary floating-point operations is not modelled.
\<close>

datatype error = KeyError string | IndexError | TypeError | ZeroDivisionError | ApiError string

record coord =
  lat :: rat
  long :: rat

record site_info =
  siteNumber :: string
  roadname :: string
  locationDesc :: string
  roadDir :: string
  location :: coord

record traffic_item =
  site :: site_info
  entries :: "string \<rightharpoonup> int"

text \<open>\<^verbatim>\<open>item[key]\<close> raises on a missing key; \<^verbatim>\<open>d.get(key, 0)\<close> does not.\<close>

definition getitem :: "traffic_item \<Rightarrow> string \<Rightarrow> error + int" where
  "getitem d key = (case entries d key of None \<Rightarrow> Inl (KeyError key) | Some v \<Rightarrow> Inr v)"

definition get_default :: "traffic_item \<Rightarrow> string \<Rightarrow> int \<Rightarrow> int" where
  "get_default d key dflt = (case entries d key of None \<Rightarrow> dflt | Some v \<Rightarrow> v)"

text \<open>Sequencing of computations that may raise: the first exception wins.\<close>

definition bind :: "error + 'a \<Rightarrow> ('a \<Rightarrow> error + 'b) \<Rightarrow> error + 'b" where
  "bind r f = (case r of Inl e \<Rightarrow> Inl e | Inr v \<Rightarrow> f v)"

text \<open>A list comprehension whose element expression may raise.\<close>

fun map_raise :: "('a \<Rightarrow> error + 'b) \<Rightarrow> 'a list \<Rightarrow> error + 'b list" where
  "map_raise f [] = Inr []"
| "map_raise f (x # xs) = bind (f x) (\<lambda>y. bind (map_raise f xs) (\<lambda>ys. Inr (y # ys)))"

text \<open>\<^verbatim>\<open>sum(item[key] for key in class_keys)\<close>: the generator is consumed from the
  left and the first missing key raises.\<close>

fun sum_getitem :: "traffic_item \<Rightarrow> string list \<Rightarrow> error + int" where
  "sum_getitem d [] = Inr 0"
| "sum_getitem d (key # keys) =
     bind (getitem d key) (\<lambda>v. bind (sum_getitem d keys) (\<lambda>s. Inr (v + s)))"

text \<open>\<^verbatim>\<open>sum(d.get(key, 0) for key in class_keys)\<close>.\<close>

definition sum_get :: "traffic_item \<Rightarrow> string list \<Rightarrow> int" where
  "sum_get d keys = sum_list (map (\<lambda>key. get_default d key 0) keys)"

text \<open>The expression \<^verbatim>\<open>item['Class3'] + item['Class4'] + ... + item['Class10']\<close>,
  which the source writes out in six places; the operands are evaluated from the left.\<close>

definition total_class3plus :: "traffic_item \<Rightarrow> error + int" where
  "total_class3plus d =
     bind (getitem d ''Class3'') (\<lambda>c3. bind (getitem d ''Class4'') (\<lambda>c4.
     bind (getitem d ''Class5'') (\<lambda>c5. bind (getitem d ''Class6'') (\<lambda>c6.
     bind (getitem d ''Class7'') (\<lambda>c7. bind (getitem d ''Class8'') (\<lambda>c8.
     bind (getitem d ''Class9'') (\<lambda>c9. bind (getitem d ''Class10'') (\<lambda>c10.
       Inr (c3 + c4 + c5 + c6 + c7 + c8 + c9 + c10)))))))))"

subsection \<open>Class labels and keys\<close>

text \<open>
  \<^verbatim>\<open>class_name.split()\<close> splits at runs of whitespace and drops empty words. The
  whitespace characters are those of \<^verbatim>\<open>str.isspace\<close> below code point 256.
\<close>

definition is_space :: "char \<Rightarrow> bool" where
  "is_space c = (of_char c \<in> {9, 10, 11, 12, 13, 28, 29, 30, 31, 32, 133, 160 :: nat})"

fun split_from :: "string \<Rightarrow> string \<Rightarrow> string list" where
  "split_from w [] = (if w = [] then [] else [w])"
| "split_from w (c # cs) =
     (if is_space c then (if w = [] then split_from [] cs else w # split_from [] cs)
      else split_from (w @ [c]) cs)"

definition split :: "string \<Rightarrow> string list" where
  "split s = split_from [] s"

text \<open>\<^verbatim>\<open>f"Class{class_name.split()[-1]}"\<close>; indexing an empty list raises.\<close>

definition class_key :: "string \<Rightarrow> error + string" where
  "class_key class_name =
     (case split class_name of [] \<Rightarrow> Inl IndexError | w # ws \<Rightarrow> Inr (''Class'' @ last (w # ws)))"

text \<open>The selection is a list of labels; \<^verbatim>\<open>None\<close> and the empty list are both falsy
  and both are the empty list here.\<close>

definition class_keys :: "string list \<Rightarrow> error + string list" where
  "class_keys selected_classes =
     (if selected_classes \<noteq> [] then map_raise class_key selected_classes else Inr [])"

text \<open>The options of the sidebar's multiselect, from which \<^verbatim>\<open>main\<close> takes the selection.\<close>

definition class_options :: "string list" where
  "class_options = [''Class 3'', ''Class 4'', ''Class 5'', ''Class 6'', ''Class 7'',
     ''Class 8'', ''Class 9'', ''Class 10'']"

subsection \<open>Percentile thresholds\<close>

text \<open>
  Modelled from the spec: \<^verbatim>\<open>np.quantile\<close> belongs to NumPy, not to the repository. The
  spec calls it the linear-interpolation quantile: on the sorted values \<open>s\<close> of length
  \<open>n\<close> the virtual index is \<open>(n - 1) * q\<close> (\<open>quantile\<close>), and the result interpolates
  linearly between the values at its floor and at the next index (\<open>interpolate\<close>). The
  source calls it on non-empty lists only and with \<open>q\<close> between 0 and 1.
\<close>

definition interpolate :: "int list \<Rightarrow> rat \<Rightarrow> rat" where
  "interpolate s h =
     (let lo = nat \<lfloor>h\<rfloor>;
          hi = min (lo + 1) (length s - 1);
          g = h - of_int \<lfloor>h\<rfloor>
      in of_int (s ! lo) + g * (of_int (s ! hi) - of_int (s ! lo)))"

definition quantile :: "int list \<Rightarrow> rat \<Rightarrow> rat" where
  "quantile xs q = interpolate (sort xs) (of_nat (length xs - 1) * q)"

text \<open>Lines 136 to 149: the pair \<^verbatim>\<open>(top_third_threshold, middle_third_threshold)\<close>.\<close>

definition quantile_pair :: "int list \<Rightarrow> rat \<times> rat" where
  "quantile_pair counts =
     (if counts \<noteq> [] then (quantile counts (67 / 100), quantile counts (33 / 100))
      else (0, 0))"

definition thresholds :: "string list \<Rightarrow> string list \<Rightarrow> traffic_item list \<Rightarrow> error + rat \<times> rat" where
  "thresholds selected_classes keys data =
     (if selected_classes \<noteq> [] then Inr (quantile_pair (map (\<lambda>d. sum_get d keys) data))
      else bind (map_raise total_class3plus data) (\<lambda>all_totals. Inr (quantile_pair all_totals)))"

subsection \<open>Markers\<close>

text \<open>
  The popup and tooltip texts are f-string templates. They are represented by the values
  the template interpolates, in the template's order, so that the model raises where the
  interpolated expressions raise; the HTML around the values is left out. Calls into
  folium are taken to succeed.
\<close>

datatype popup =
    SelectionPopup string string string string int "string list" int "(string \<times> int) list"
  | AllClassesPopup string string string string int "int list"
  | StationPopup string string string string string string string

datatype tooltip =
    SelectionTip string "string list" int
  | TotalTip string int
  | StationTip string string

record marker =
  position :: "rat \<times> rat"
  popup :: popup
  tooltip :: tooltip
  color :: string
  icon :: string

text \<open>The colour chain of lines 211 to 216 and again of lines 224 to 229.\<close>

definition marker_color :: "int \<Rightarrow> rat \<Rightarrow> rat \<Rightarrow> string" where
  "marker_color count top_third_threshold middle_third_threshold =
     (if of_int count > top_third_threshold then ''red''
      else if of_int count > middle_third_threshold then ''orange''
      else ''green'')"

definition class_fields :: "string list" where
  "class_fields = [''Class3'', ''Class4'', ''Class5'', ''Class6'', ''Class7'', ''Class8'',
     ''Class9'', ''Class10'']"

text \<open>One line of \<^verbatim>\<open>class_lines\<close> (lines 166 to 168).\<close>

definition class_line :: "traffic_item \<Rightarrow> string \<Rightarrow> error + string \<times> int" where
  "class_line item class_name =
     bind (class_key class_name) (\<lambda>key. bind (getitem item key) (\<lambda>v. Inr (class_name, v)))"

text \<open>The body of the loop over \<^verbatim>\<open>data\<close> (lines 154 to 238): the marker of one site.\<close>

definition site_marker ::
  "string list \<Rightarrow> string list \<Rightarrow> rat \<Rightarrow> rat \<Rightarrow> traffic_item \<Rightarrow> error + marker" where
  "site_marker selected_classes keys top_third_threshold middle_third_threshold item =
     (let s = site item;
          pos = (lat (location s), long (location s))
      in if selected_classes \<noteq> [] then
           bind (sum_getitem item keys) (\<lambda>popup_count.
           bind (map_raise (class_line item) selected_classes) (\<lambda>class_lines.
           bind (total_class3plus item) (\<lambda>total.
           bind (sum_getitem item keys) (\<lambda>combined_count.
             Inr \<lparr>position = pos,
                  popup = SelectionPopup (roadname s) (siteNumber s) (locationDesc s) (roadDir s)
                            total selected_classes popup_count class_lines,
                  tooltip = SelectionTip (roadname s) selected_classes combined_count,
                  color = marker_color combined_count top_third_threshold middle_third_threshold,
                  icon = ''truck''\<rparr>))))
         else
           bind (total_class3plus item) (\<lambda>total.
           bind (map_raise (getitem item) class_fields) (\<lambda>per_class.
           bind (total_class3plus item) (\<lambda>total_traffic.
             Inr \<lparr>position = pos,
                  popup = AllClassesPopup (roadname s) (siteNumber s) (locationDesc s) (roadDir s)
                            total per_class,
                  tooltip = TotalTip (roadname s) total_traffic,
                  color = marker_color total_traffic top_third_threshold middle_third_threshold,
                  icon = ''truck''\<rparr>))))"

text \<open>
  A row of the hydrogen-station table. \<^verbatim>\<open>station.get(column, 'N/A')\<close> gives the default
  when the column is absent (\<open>None\<close> here). An empty cell is read as NaN, a float, and
  slicing it with \<^verbatim>\<open>[:100]\<close> raises \<^verbatim>\<open>TypeError\<close>.
\<close>

datatype cell = Str string | NaN

record station =
  Lat :: rat
  Long :: rat
  name :: string
  city_state :: string
  operator :: string
  Start :: string
  storage_capacity_kg :: "string option"
  dispensing_daily_capacity :: "string option"
  usage_case :: "cell option"

definition get_or_na :: "string option \<Rightarrow> string" where
  "get_or_na v = (case v of None \<Rightarrow> ''N/A'' | Some x \<Rightarrow> x)"

definition usage_text :: "cell option \<Rightarrow> error + string" where
  "usage_text v =
     (case v of None \<Rightarrow> Inr (take 100 ''N/A'')
      | Some (Str u) \<Rightarrow> Inr (take 100 u)
      | Some NaN \<Rightarrow> Inl TypeError)"

definition station_marker :: "station \<Rightarrow> error + marker" where
  "station_marker st =
     bind (usage_text (usage_case st)) (\<lambda>usage.
       Inr \<lparr>position = (Lat st, Long st),
            popup = StationPopup (name st) (city_state st) (operator st) (Start st)
                      (get_or_na (storage_capacity_kg st))
                      (get_or_na (dispensing_daily_capacity st)) usage,
            tooltip = StationTip (name st) (city_state st),
            color = ''blue'',
            icon = ''gas-pump''\<rparr>)"

subsection \<open>The map and the objects it shares the heap with\<close>

text \<open>
  A route file is an opaque JSON object handed to the renderer: the list of its
  top-level members. An empty object is falsy.
\<close>

type_synonym geojson = "(string \<times> string) list"

record line_style =
  line_color :: string
  weight :: nat
  opacity :: rat

datatype child = Marker marker | GeoJson geojson line_style

record folium_map =
  map_location :: "rat \<times> rat"
  zoom_start :: nat
  tiles :: string
  children :: "child list"

text \<open>
  Python passes \<^verbatim>\<open>data\<close> by reference and \<^verbatim>\<open>add_to(m)\<close> mutates the map in place.
  The heap is the list of the objects that exist; a reference is an index into it. The
  site list is one object, each folium map another.
\<close>

datatype obj = Sites "traffic_item list" | FoliumMap folium_map

type_synonym heap = "obj list"

definition deref :: "heap \<Rightarrow> nat \<Rightarrow> obj option" where
  "deref h r = (if r < length h then Some (h ! r) else None)"

text \<open>\<^verbatim>\<open>folium.Map(...)\<close> creates a new object.\<close>

definition new_map :: "folium_map \<Rightarrow> heap \<Rightarrow> heap \<times> nat" where
  "new_map fm h = (h @ [FoliumMap fm], length h)"

text \<open>\<^verbatim>\<open>child.add_to(m)\<close> appends to the children of the map that \<open>m\<close> refers to.\<close>

definition add_to :: "child \<Rightarrow> nat \<Rightarrow> heap \<Rightarrow> heap" where
  "add_to c m h =
     (case deref h m of
        Some (FoliumMap fm) \<Rightarrow> h[m := FoliumMap (fm\<lparr>children := children fm @ [c]\<rparr>)]
      | _ \<Rightarrow> h)"

text \<open>The loop of lines 153 to 239; an exception leaves the markers added so far.\<close>

fun add_traffic_markers ::
  "string list \<Rightarrow> string list \<Rightarrow> rat \<Rightarrow> rat \<Rightarrow> traffic_item list \<Rightarrow> nat \<Rightarrow> heap
     \<Rightarrow> heap \<times> (error + unit)" where
  "add_traffic_markers sel keys top_t mid_t [] m h = (h, Inr ())"
| "add_traffic_markers sel keys top_t mid_t (item # rest) m h =
     (case site_marker sel keys top_t mid_t item of
        Inl e \<Rightarrow> (h, Inl e)
      | Inr mk \<Rightarrow> add_traffic_markers sel keys top_t mid_t rest m (add_to (Marker mk) m h))"

text \<open>The loop of lines 242 to 269.\<close>

fun add_station_markers :: "station list \<Rightarrow> nat \<Rightarrow> heap \<Rightarrow> heap \<times> (error + unit)" where
  "add_station_markers [] m h = (h, Inr ())"
| "add_station_markers (st # rest) m h =
     (case station_marker st of
        Inl e \<Rightarrow> (h, Inl e)
      | Inr mk \<Rightarrow> add_station_markers rest m (add_to (Marker mk) m h))"

text \<open>\<^verbatim>\<open>if show and layer: folium.GeoJson(layer, style).add_to(m)\<close>.\<close>

definition add_layer :: "bool \<Rightarrow> geojson option \<Rightarrow> line_style \<Rightarrow> nat \<Rightarrow> heap \<Rightarrow> heap" where
  "add_layer show layer style m h =
     (case layer of
        Some g \<Rightarrow> (if show \<and> g \<noteq> [] then add_to (GeoJson g style) m h else h)
      | None \<Rightarrow> h)"

text \<open>\<^verbatim>\<open>sum(values) / len(values)\<close>.\<close>

definition mean :: "rat list \<Rightarrow> error + rat" where
  "mean values =
     (if length values = 0 then Inl ZeroDivisionError
      else Inr (sum_list values / of_nat (length values)))"

record map_args =
  data :: nat
  hydrogen_stations :: "station list option"
  railway_data :: "geojson option"
  road_data :: "geojson option"
  secondary_data :: "geojson option"
  show_traffic :: bool
  show_hydrogen :: bool
  show_railway :: bool
  show_roads :: bool
  show_secondary :: bool
  selected_classes :: "string list"

text \<open>
  \<^verbatim>\<open>create_traffic_map\<close>, statement by statement. The argument \<open>data\<close> is a reference
  to the site list. The result is the heap afterwards and either the exception that
  escaped or the returned value: \<open>None\<close>, or the reference to the new map.
\<close>

definition after_thresholds ::
  "map_args \<Rightarrow> traffic_item list \<Rightarrow> string list \<Rightarrow> rat \<times> rat \<Rightarrow> nat \<Rightarrow> heap
     \<Rightarrow> heap \<times> (error + nat option)" where
  "after_thresholds a items keys th m h =
     (case (if show_traffic a
            then add_traffic_markers (selected_classes a) keys (fst th) (snd th) items m h
            else (h, Inr ())) of
        (h1, Inl e) \<Rightarrow> (h1, Inl e)
      | (h1, Inr _) \<Rightarrow>
          (case (case hydrogen_stations a of
                   Some sts \<Rightarrow>
                     (if show_hydrogen a \<and> sts \<noteq> [] then add_station_markers sts m h1
                      else (h1, Inr ()))
                 | None \<Rightarrow> (h1, Inr ())) of
             (h2, Inl e) \<Rightarrow> (h2, Inl e)
           | (h2, Inr _) \<Rightarrow>
               (let h3 = add_layer (show_railway a) (railway_data a)
                           \<lparr>line_color = ''red'', weight = 3, opacity = 7 / 10\<rparr> m h2;
                    h4 = add_layer (show_roads a) (road_data a)
                           \<lparr>line_color = ''blue'', weight = 4, opacity = 8 / 10\<rparr> m h3;
                    h5 = add_layer (show_secondary a) (secondary_data a)
                           \<lparr>line_color = ''green'', weight = 2, opacity = 6 / 10\<rparr> m h4
                in (h5, Inr (Some m)))))"

definition create_traffic_map :: "heap \<Rightarrow> map_args \<Rightarrow> heap \<times> (error + nat option)" where
  "create_traffic_map h a =
     (case deref h (data a) of
        Some (Sites items) \<Rightarrow>
          if items = [] then (h, Inr None)
          else
            (case bind (mean (map (\<lambda>item. lat (location (site item))) items)) (\<lambda>center_lat.
                  bind (mean (map (\<lambda>item. long (location (site item))) items)) (\<lambda>center_lon.
                    Inr (center_lat, center_lon))) of
               Inl e \<Rightarrow> (h, Inl e)
             | Inr center \<Rightarrow>
                 (case new_map \<lparr>map_location = center, zoom_start = 8,
                                tiles = ''OpenStreetMap'', children = []\<rparr> h of
                    (h0, m) \<Rightarrow>
                      (case bind (class_keys (selected_classes a)) (\<lambda>keys.
                            bind (thresholds (selected_classes a) keys items) (\<lambda>th.
                              Inr (keys, th))) of
                         Inl e \<Rightarrow> (h0, Inl e)
                       | Inr (keys, th) \<Rightarrow> after_thresholds a items keys th m h0)))
      | _ \<Rightarrow> (h, Inl TypeError))"

section \<open>Distance and fuel estimation\<close>

text \<open>
  The Google Maps client is external. It is a pair of functions that return the parsed
  response or raise (\<open>ApiError\<close> with the message). In a distance-matrix element the
  members \<^verbatim>\<open>'distance'\<close> and \<^verbatim>\<open>'duration'\<close> may be absent, which the code would
  meet as a \<^verbatim>\<open>KeyError\<close>.
\<close>

record geocode_hit =
  hit_lat :: rat
  hit_lng :: rat

record dm_field =
  f_text :: string
  f_value :: int

record dm_element =
  status :: string
  distance :: "dm_field option"
  duration :: "dm_field option"

record dm_result =
  rows :: "dm_element list list"

record gmaps_client =
  geocode :: "string \<Rightarrow> error + geocode_hit list"
  distance_matrix ::
    "(rat \<times> rat) list \<Rightarrow> (rat \<times> rat) list \<Rightarrow> string \<Rightarrow> string \<Rightarrow> error + dm_result"

record distance_result =
  r_distance :: string
  r_duration :: string
  distance_value :: int
  destination_coords :: "rat \<times> rat"

text \<open>What the page shows: the calls of \<^verbatim>\<open>st.success\<close>, \<^verbatim>\<open>st.metric\<close>,
  \<^verbatim>\<open>st.info\<close>, \<^verbatim>\<open>st.error\<close> and \<^verbatim>\<open>st.warning\<close>, in order. A metric that shows
  a formatted number carries the number before formatting.\<close>

datatype metric_value = Text string | Litres rat | Kilograms rat

datatype ui =
    St_success string
  | St_metric string metric_value
  | St_info string string string
  | St_error string
  | St_exception string error
  | St_warning string

text \<open>\<^verbatim>\<open>xs[0]\<close> and \<^verbatim>\<open>d[key]\<close> on a response.\<close>

definition first :: "'a list \<Rightarrow> error + 'a" where
  "first xs = (case xs of [] \<Rightarrow> Inl IndexError | x # _ \<Rightarrow> Inr x)"

definition member :: "string \<Rightarrow> 'a option \<Rightarrow> error + 'a" where
  "member key v = (case v of None \<Rightarrow> Inl (KeyError key) | Some x \<Rightarrow> Inr x)"

text \<open>The body of the \<^verbatim>\<open>try\<close> block of \<^verbatim>\<open>calculate_distance\<close> (lines 32 to 58).\<close>

definition distance_lookup ::
  "gmaps_client \<Rightarrow> rat \<Rightarrow> rat \<Rightarrow> string \<Rightarrow> error + distance_result option" where
  "distance_lookup gmaps origin_lat origin_lon destination_address =
     bind (geocode gmaps destination_address) (\<lambda>geocode_result.
       if geocode_result = [] then Inr None
       else
         bind (first geocode_result) (\<lambda>hit.
         let dest_lat = hit_lat hit; dest_lon = hit_lng hit in
         bind (distance_matrix gmaps [(origin_lat, origin_lon)] [(dest_lat, dest_lon)]
                 ''driving'' ''metric'') (\<lambda>result.
         bind (first (rows result)) (\<lambda>row.
         bind (first row) (\<lambda>element.
           if status element = ''OK'' then
             bind (member ''distance'' (distance element)) (\<lambda>dist.
             bind (member ''duration'' (duration element)) (\<lambda>dur.
               Inr (Some \<lparr>r_distance = f_text dist, r_duration = f_text dur,
                          distance_value = f_value dist,
                          destination_coords = (dest_lat, dest_lon)\<rparr>)))
           else Inr None)))))"

text \<open>\<^verbatim>\<open>calculate_distance\<close>: what it shows and what it returns. \<open>None\<close> for the
  client is the client that could not be built; the empty string is the falsy
  destination.\<close>

definition calculate_distance ::
  "gmaps_client option \<Rightarrow> rat \<Rightarrow> rat \<Rightarrow> string \<Rightarrow> ui list \<times> distance_result option" where
  "calculate_distance gmaps origin_lat origin_lon destination_address =
     (case gmaps of
        None \<Rightarrow> ([], None)
      | Some client \<Rightarrow>
          if destination_address = [] then ([], None)
          else
            (case distance_lookup client origin_lat origin_lon destination_address of
               Inl e \<Rightarrow> ([St_exception ''Error calculating distance: '' e], None)
             | Inr r \<Rightarrow> ([], r)))"

text \<open>The consumption table of \<^verbatim>\<open>main\<close>, in litres per 100 km.\<close>

definition fuel_consumption :: "(string \<times> rat) list" where
  "fuel_consumption =
     [(''Class 4 (Medium Rigid)'', 1245859 / 100000),
      (''Class 5 (Heavy Rigid)'', 2322869 / 100000),
      (''Class 7 (Arctic 4 Axle)'', 2724712 / 100000),
      (''Class 8 (Artic 5 Axle)'', 3044964 / 100000),
      (''Class 9 (Artic 6 Axle)'', 3814329 / 100000),
      (''Class 9 (Rigid + 5 Axle Dog)'', 3814329 / 100000),
      (''Class 10 (B-Double)'', 4148179 / 100000)]"

definition consumption_of :: "string \<Rightarrow> error + rat" where
  "consumption_of truck_class =
     (case map_of fuel_consumption truck_class of
        None \<Rightarrow> Inl (KeyError truck_class)
      | Some rate \<Rightarrow> Inr rate)"

definition index :: "'a list \<Rightarrow> nat \<Rightarrow> error + 'a" where
  "index xs i = (if i < length xs then Inr (xs ! i) else Inl IndexError)"

text \<open>Lines 473 to 511 of \<^verbatim>\<open>main\<close>: what is shown for a distance result. An
  exception ends the handler; the result is then the exception alone.\<close>

definition show_result ::
  "traffic_item \<Rightarrow> string \<Rightarrow> string \<Rightarrow> distance_result option \<Rightarrow> error + ui list" where
  "show_result selected_site destination truck_class distance_result =
     (case distance_result of
        Some r \<Rightarrow>
          (let distance_km = of_int (distance_value r) / 1000 in
           bind (consumption_of truck_class) (\<lambda>rate.
             let fuel_needed = (distance_km / 100) * rate;
                 hydrogen_use = (fuel_needed * 45) / 120
             in Inr [St_success ''Distance calculated successfully!'',
                     St_metric ''Distance'' (Text (r_distance r)),
                     St_metric ''Driving Time'' (Text (r_duration r)),
                     St_metric ''Estimated Fuel'' (Litres fuel_needed),
                     St_metric ''Hydrogen Usage'' (Kilograms hydrogen_use),
                     St_info (roadname (site selected_site) @ '' - ''
                                @ locationDesc (site selected_site))
                       destination truck_class]))
      | None \<Rightarrow>
          Inr [St_error ''Failed to calculate distance. Please check your destination address.''])"

text \<open>Lines 465 to 515 of \<^verbatim>\<open>main\<close>: the handler of the "Calculate Distance" button.\<close>

definition on_calculate ::
  "gmaps_client option \<Rightarrow> traffic_item list \<Rightarrow> nat \<Rightarrow> string \<Rightarrow> string \<Rightarrow> error + ui list" where
  "on_calculate gmaps items selected_site_index destination truck_class =
     (if destination \<noteq> [] \<and> gmaps \<noteq> None then
        bind (index items selected_site_index) (\<lambda>selected_site.
          let site_lat = lat (location (site selected_site));
              site_lon = long (location (site selected_site));
              (shown, distance_result) = calculate_distance gmaps site_lat site_lon destination
          in bind (show_result selected_site destination truck_class distance_result)
               (\<lambda>more. Inr (shown @ more)))
      else if destination = [] then Inr [St_warning ''Please enter a destination address.'']
      else if gmaps = None then
        Inr [St_error ''Google Maps API is not available. Please check your API key.'']
      else Inr [])"

section \<open>The detailed data table\<close>

text \<open>True division of two integers raises on a zero divisor.\<close>

definition truediv :: "int \<Rightarrow> int \<Rightarrow> error + rat" where
  "truediv a b = (if b = 0 then Inl ZeroDivisionError else Inr (of_int a / of_int b))"

text \<open>\<^verbatim>\<open>round(x, 2)\<close>: to the nearest multiple of 1/100, a tie to the even one.\<close>

definition round_half_even :: "rat \<Rightarrow> int" where
  "round_half_even x =
     (let f = \<lfloor>x\<rfloor>; r = x - of_int f
      in if r < 1 / 2 then f else if r > 1 / 2 then f + 1 else if even f then f else f + 1)"

definition round2 :: "rat \<Rightarrow> rat" where
  "round2 x = of_int (round_half_even (x * 100)) / 100"

record display_row =
  site_number :: string
  road_name :: string
  location_desc :: string
  total_vehicles :: int
  medium_trucks :: int
  heavy_trucks :: int
  heavy_truck_pct :: rat

text \<open>The conditional expression of line 558: the condition first, then one branch.\<close>

definition heavy_truck_percent :: "traffic_item \<Rightarrow> error + rat" where
  "heavy_truck_percent item =
     bind (total_class3plus item) (\<lambda>cond_total.
       if cond_total > 0 then
         bind (sum_getitem item [''Class6'', ''Class7'', ''Class8'', ''Class9'', ''Class10''])
           (\<lambda>heavy.
         bind (total_class3plus item) (\<lambda>total.
         bind (truediv heavy total) (\<lambda>ratio. Inr (round2 (ratio * 100)))))
       else Inr 0)"

text \<open>The dict appended to \<^verbatim>\<open>display_data\<close> for one site (lines 550 to 559).\<close>

definition display_row_of :: "traffic_item \<Rightarrow> error + display_row" where
  "display_row_of item =
     (let s = site item in
      bind (total_class3plus item) (\<lambda>total.
      bind (sum_getitem item [''Class3'', ''Class4'', ''Class5'']) (\<lambda>medium.
      bind (sum_getitem item [''Class6'', ''Class7'', ''Class8'', ''Class9'', ''Class10''])
        (\<lambda>heavy.
      bind (heavy_truck_percent item) (\<lambda>pct.
        Inr \<lparr>site_number = siteNumber s, road_name = roadname s,
             location_desc = locationDesc s, total_vehicles = total,
             medium_trucks = medium, heavy_trucks = heavy, heavy_truck_pct = pct\<rparr>)))))"


section \<open>Vocabulary of the specification\<close>

text \<open>
  The specification speaks of truck classes 3 to 10, of a site's count for a class and of
  the sum of its eight class counts. Class \<open>n\<close> is shown as the label \<^verbatim>\<open>Class n\<close> in
  the sidebar and stored under the key \<^verbatim>\<open>Classn\<close>.
\<close>

definition number_text :: "nat \<Rightarrow> string" where
  "number_text n =
     (if n = 3 then ''3'' else if n = 4 then ''4'' else if n = 5 then ''5''
      else if n = 6 then ''6'' else if n = 7 then ''7'' else if n = 8 then ''8''
      else if n = 9 then ''9'' else if n = 10 then ''10'' else [])"

definition class_label :: "nat \<Rightarrow> string" where
  "class_label n = ''Class '' @ number_text n"

definition class_field :: "nat \<Rightarrow> string" where
  "class_field n = ''Class'' @ number_text n"

definition class_count :: "traffic_item \<Rightarrow> nat \<Rightarrow> int" where
  "class_count item n = get_default item (class_field n) 0"

definition all_classes_total :: "traffic_item \<Rightarrow> int" where
  "all_classes_total item = (\<Sum>n = 3..10. class_count item n)"

text \<open>A site record as the data model has it: all eight class counts are present.\<close>

definition has_classes :: "traffic_item \<Rightarrow> bool" where
  "has_classes item = list_all (\<lambda>key. entries item key \<noteq> None) class_fields"

fun is_metric :: "ui \<Rightarrow> bool" where
  "is_metric (St_metric label v) = True"
| "is_metric other = False"

text \<open>The aggregate count of the specification: the sum of the site's counts over the
  selected classes, or over all eight classes when nothing is selected.\<close>

definition aggregate :: "nat list \<Rightarrow> traffic_item \<Rightarrow> int" where
  "aggregate ns item =
     (if ns = [] then all_classes_total item else (\<Sum>n \<in> set ns. class_count item n))"

text \<open>The station rows whose marker can be built: no usage cell is NaN.\<close>

definition stations_ok :: "station list option \<Rightarrow> bool" where
  "stations_ok stations =
     (case stations of
        None \<Rightarrow> True
      | Some sts \<Rightarrow> list_all (\<lambda>st. usage_case st \<noteq> Some NaN) sts)"

subsection \<open>Sample inputs\<close>

text \<open>A site with the given name, \<open>c3\<close> vehicles of class 3, \<open>c6\<close> of class 6 and none
  of the other classes.\<close>

definition sample_site :: "string \<Rightarrow> int \<Rightarrow> int \<Rightarrow> traffic_item" where
  "sample_site nm c3 c6 =
     \<lparr>site = \<lparr>siteNumber = ''51'', roadname = nm, locationDesc = ''North of Bridge'',
              roadDir = ''N'', location = \<lparr>lat = - 32, long = 116\<rparr>\<rparr>,
      entries = map_of [(''Class3'', c3), (''Class4'', 0), (''Class5'', 0), (''Class6'', c6),
                        (''Class7'', 0), (''Class8'', 0), (''Class9'', 0), (''Class10'', 0)]\<rparr>"

text \<open>A client that resolves two addresses; only one of them can be reached by road.\<close>

definition sample_client :: gmaps_client where
  "sample_client =
     \<lparr>geocode = (\<lambda>address. if address = ''Perth'' then Inr [\<lparr>hit_lat = - 31, hit_lng = 115\<rparr>]
                            else if address = ''Rottnest Island''
                              then Inr [\<lparr>hit_lat = - 32, hit_lng = 231 / 2\<rparr>]
                            else Inr []),
      distance_matrix = (\<lambda>origins destinations mode units.
         if destinations = [(- 31, 115)] then
           Inr \<lparr>rows = [[\<lparr>status = ''OK'',
                           distance = Some \<lparr>f_text = ''100 km'', f_value = 100000\<rparr>,
                           duration = Some \<lparr>f_text = ''1 hour 5 mins'', f_value = 3900\<rparr>\<rparr>]]\<rparr>
         else Inr \<lparr>rows = [[\<lparr>status = ''ZERO_RESULTS'', distance = None, duration = None\<rparr>]]\<rparr>)\<rparr>"

text \<open>An argument record for the samples: the site list at reference 0, no stations and
  no route files, every layer switched on.\<close>

definition sample_args :: "string list \<Rightarrow> map_args" where
  "sample_args sel =
     \<lparr>data = 0, hydrogen_stations = None, railway_data = None, road_data = None,
      secondary_data = None, show_traffic = True, show_hydrogen = True, show_railway = True,
      show_roads = True, show_secondary = True, selected_classes = sel\<rparr>"

section \<open>Properties\<close>

subsection \<open>Sequencing and lookups\<close>

lemma bind_Inr [simp]: "bind (Inr v) f = f v"
  by (simp add: bind_def)

lemma bind_Inl [simp]: "bind (Inl e) f = Inl e"
  by (simp add: bind_def)

lemma bind_eq_Inr: "bind r f = Inr y \<longleftrightarrow> (\<exists>v. r = Inr v \<and> f v = Inr y)"
  by (cases r) simp_all

lemma map_raise_error_from_element:
  "map_raise f xs = Inl e \<Longrightarrow> \<exists>x \<in> set xs. f x = Inl e"
proof (induction xs)
  case Nil
  then show ?case by simp
next
  case (Cons x xs)
  then show ?case
    by (cases "f x"; cases "map_raise f xs") (auto simp: bind_def)
qed

lemma map_raise_all_Inr:
  "\<forall>x \<in> set xs. \<exists>y. f x = Inr y \<and> P x y
     \<Longrightarrow> \<exists>ys. map_raise f xs = Inr ys \<and> length ys = length xs
           \<and> (\<forall>i < length xs. f (xs ! i) = Inr (ys ! i) \<and> P (xs ! i) (ys ! i))"
proof (induction xs)
  case Nil
  then show ?case by simp
next
  case (Cons x xs)
  then obtain y where y: "f x = Inr y" "P x y" by auto
  from Cons obtain ys where ys: "map_raise f xs = Inr ys" "length ys = length xs"
    "\<forall>i < length xs. f (xs ! i) = Inr (ys ! i) \<and> P (xs ! i) (ys ! i)" by auto
  have "\<forall>i < length (x # xs).
          f ((x # xs) ! i) = Inr ((y # ys) ! i) \<and> P ((x # xs) ! i) ((y # ys) ! i)"
    using y ys(3) by (auto simp: nth_Cons split: nat.splits)
  with y ys show ?case by simp
qed

lemma atLeastAtMost_3_10: "{3..10::nat} = {3, 4, 5, 6, 7, 8, 9, 10}"
  by auto

lemma all_classes_total_unfold:
  "all_classes_total item =
     class_count item 3 + class_count item 4 + class_count item 5 + class_count item 6
     + class_count item 7 + class_count item 8 + class_count item 9 + class_count item 10"
  by (simp add: all_classes_total_def atLeastAtMost_3_10)

lemma has_classes_getitem:
  "has_classes item \<Longrightarrow> key \<in> set class_fields
     \<Longrightarrow> getitem item key = Inr (get_default item key 0)"
  by (auto simp: has_classes_def getitem_def get_default_def list_all_iff split: option.splits)

lemma total_of_has_classes:
  "has_classes item \<Longrightarrow> total_class3plus item = Inr (all_classes_total item)"
  by (simp add: total_class3plus_def has_classes_getitem class_fields_def
      all_classes_total_unfold class_count_def class_field_def number_text_def)

lemma total_Inr_has_classes: "total_class3plus item = Inr t \<Longrightarrow> has_classes item"
  by (auto simp: total_class3plus_def bind_def getitem_def has_classes_def class_fields_def
      split: option.splits)

lemma total_error_is_KeyError: "total_class3plus item = Inl e \<Longrightarrow> \<exists>key. e = KeyError key"
  by (auto simp: total_class3plus_def bind_def getitem_def split: option.splits)

lemma sum_getitem_has_classes:
  "has_classes item \<Longrightarrow> set keys \<subseteq> set class_fields
     \<Longrightarrow> sum_getitem item keys = Inr (sum_get item keys)"
  by (induction keys) (simp_all add: sum_get_def has_classes_getitem)

lemma sample_site_has_classes: "has_classes (sample_site nm c3 c6)"
  by (simp add: has_classes_def sample_site_def class_fields_def)

lemma sample_site_total: "all_classes_total (sample_site nm c3 c6) = c3 + c6"
  by (simp add: all_classes_total_unfold class_count_def class_field_def number_text_def
      get_default_def sample_site_def)

subsection \<open>The detailed data table\<close>

lemma heavy_percent_no_zero_division: "heavy_truck_percent item \<noteq> Inl ZeroDivisionError"
proof (cases "total_class3plus item")
  case (Inl e)
  then show ?thesis
    using total_error_is_KeyError [OF Inl] by (auto simp: heavy_truck_percent_def)
next
  case (Inr t)
  then have hc: "has_classes item" by (rule total_Inr_has_classes)
  have "sum_getitem item [''Class6'', ''Class7'', ''Class8'', ''Class9'', ''Class10'']
          = Inr (sum_get item [''Class6'', ''Class7'', ''Class8'', ''Class9'', ''Class10''])"
    by (rule sum_getitem_has_classes [OF hc]) (simp add: class_fields_def)
  with Inr show ?thesis
    by (simp add: heavy_truck_percent_def truediv_def del: sum_getitem.simps)
qed

lemma display_row_of_has_classes:
  assumes "has_classes item"
  shows "\<exists>row. display_row_of item = Inr row
           \<and> total_vehicles row = all_classes_total item
           \<and> site_number row = siteNumber (site item)
           \<and> road_name row = roadname (site item)
           \<and> location_desc row = locationDesc (site item)
           \<and> (all_classes_total item = 0 \<longrightarrow> heavy_truck_pct row = 0)"
proof -
  have m: "sum_getitem item [''Class3'', ''Class4'', ''Class5'']
          = Inr (sum_get item [''Class3'', ''Class4'', ''Class5''])"
    by (rule sum_getitem_has_classes [OF assms]) (simp add: class_fields_def)
  have h: "sum_getitem item [''Class6'', ''Class7'', ''Class8'', ''Class9'', ''Class10'']
          = Inr (sum_get item [''Class6'', ''Class7'', ''Class8'', ''Class9'', ''Class10''])"
    by (rule sum_getitem_has_classes [OF assms]) (simp add: class_fields_def)
  show ?thesis
    by (simp add: display_row_of_def heavy_truck_percent_def truediv_def Let_def
        total_of_has_classes [OF assms] m h del: sum_getitem.simps)
qed

lemma display_row_no_zero_division: "display_row_of item \<noteq> Inl ZeroDivisionError"
proof (cases "total_class3plus item")
  case (Inl e)
  then show ?thesis
    using total_error_is_KeyError [OF Inl] by (auto simp: display_row_of_def)
next
  case (Inr t)
  then have "has_classes item" by (rule total_Inr_has_classes)
  from display_row_of_has_classes [OF this] show ?thesis by auto
qed



text \<open>
  C10. Building the display rows never raises a division by zero: the percentage is
  divided only when the total is strictly positive. For a site whose eight class counts
  sum to 0 the Heavy Truck % field of its row is 0.
\<close>

theorem zero_total_percent_is_zero:
  "map_raise display_row_of items \<noteq> Inl ZeroDivisionError
   \<and> heavy_truck_percent item \<noteq> Inl ZeroDivisionError
   \<and> (has_classes item \<and> all_classes_total item = 0 \<longrightarrow>
        heavy_truck_percent item = Inr 0
        \<and> (\<exists>row. display_row_of item = Inr row \<and> heavy_truck_pct row = 0))"
proof (intro conjI impI)
  show "map_raise display_row_of items \<noteq> Inl ZeroDivisionError"
    using map_raise_error_from_element [of display_row_of items ZeroDivisionError]
      display_row_no_zero_division by blast
  show "heavy_truck_percent item \<noteq> Inl ZeroDivisionError"
    by (rule heavy_percent_no_zero_division)
next
  assume a: "has_classes item \<and> all_classes_total item = 0"
  then show "heavy_truck_percent item = Inr 0"
    by (simp add: heavy_truck_percent_def total_of_has_classes)
  from a display_row_of_has_classes [of item]
  show "\<exists>row. display_row_of item = Inr row \<and> heavy_truck_pct row = 0" by auto
qed

theorem zero_total_percent_is_zero_witness:
  "has_classes (sample_site ''Albany Hwy'' 0 0)
   \<and> all_classes_total (sample_site ''Albany Hwy'' 0 0) = 0
   \<and> heavy_truck_percent (sample_site ''Albany Hwy'' 0 0) = Inr 0
   \<and> (\<exists>row. display_row_of (sample_site ''Albany Hwy'' 0 0) = Inr row \<and> heavy_truck_pct row = 0)"
  using zero_total_percent_is_zero [of "[]" "sample_site ''Albany Hwy'' 0 0"]
  by (simp add: sample_site_has_classes sample_site_total)

subsection \<open>Distance and fuel estimation\<close>

lemma calculate_distance_Some:
  assumes "snd (calculate_distance gmaps origin_lat origin_lon destination) = Some r"
  shows "\<exists>client hit hits result element elements more_rows dist dur.
           gmaps = Some client \<and> destination \<noteq> []
           \<and> geocode client destination = Inr (hit # hits)
           \<and> distance_matrix client [(origin_lat, origin_lon)] [(hit_lat hit, hit_lng hit)]
                ''driving'' ''metric'' = Inr result
           \<and> rows result = (element # elements) # more_rows
           \<and> status element = ''OK''
           \<and> distance element = Some dist \<and> duration element = Some dur
           \<and> r = \<lparr>r_distance = f_text dist, r_duration = f_text dur,
                   distance_value = f_value dist,
                   destination_coords = (hit_lat hit, hit_lng hit)\<rparr>
           \<and> fst (calculate_distance gmaps origin_lat origin_lon destination) = []"
  using assms
  by (auto simp: calculate_distance_def distance_lookup_def bind_def first_def member_def Let_def
      split: option.splits sum.splits if_splits list.splits)

lemma show_result_None_no_metric:
  "show_result selected_site destination truck_class None = Inr out
     \<Longrightarrow> list_all (\<lambda>x. \<not> is_metric x) out"
  by (auto simp: show_result_def)

lemma calculate_distance_shown_no_metric:
  "list_all (\<lambda>x. \<not> is_metric x) (fst (calculate_distance gmaps origin_lat origin_lon destination))"
  by (auto simp: calculate_distance_def split: option.splits sum.splits)

lemma on_calculate_None_no_metric:
  assumes "on_calculate gmaps items i destination truck_class = Inr out"
    and "\<forall>selected_site. index items i = Inr selected_site \<longrightarrow>
           snd (calculate_distance gmaps (lat (location (site selected_site)))
                  (long (location (site selected_site))) destination) = None"
  shows "list_all (\<lambda>x. \<not> is_metric x) out"
proof (cases "destination \<noteq> [] \<and> gmaps \<noteq> None")
  case True
  with assms(1) obtain selected_site where s: "index items i = Inr selected_site"
    by (auto simp: on_calculate_def bind_eq_Inr)
  let ?c = "calculate_distance gmaps (lat (location (site selected_site)))
              (long (location (site selected_site))) destination"
  from assms(2) s have n: "snd ?c = None" by simp
  from assms(1) True s n obtain more where
    m: "show_result selected_site destination truck_class None = Inr more"
    and o: "out = fst ?c @ more"
    by (auto simp: on_calculate_def bind_eq_Inr Let_def split: prod.splits)
  from show_result_None_no_metric [OF m] calculate_distance_shown_no_metric [of gmaps
      "lat (location (site selected_site))" "long (location (site selected_site))" destination] o
  show ?thesis by simp
next
  case False
  with assms(1) show ?thesis
    by (auto simp: on_calculate_def split: if_splits)
qed

text \<open>
  C5. The estimator returns \<open>None\<close> when the client is not configured, when geocoding
  returns no result and when the first element of the distance matrix has a status other
  than OK. A result other than \<open>None\<close> is returned only when the client is configured,
  the destination is not empty, geocoding found a place and the element is OK with its
  distance and duration. With \<open>None\<close> the handler shows no metric: no fuel and no
  hydrogen value.
\<close>

theorem unavailable_unless_all_succeed:
  "calculate_distance None origin_lat origin_lon destination = ([], None)
   \<and> (geocode client destination = Inr []
        \<longrightarrow> calculate_distance (Some client) origin_lat origin_lon destination = ([], None))
   \<and> (geocode client destination = Inr (hit # hits)
        \<and> distance_matrix client [(origin_lat, origin_lon)] [(hit_lat hit, hit_lng hit)]
             ''driving'' ''metric'' = Inr result
        \<and> rows result = (element # elements) # more_rows
        \<and> status element \<noteq> ''OK''
        \<longrightarrow> calculate_distance (Some client) origin_lat origin_lon destination = ([], None))
   \<and> (snd (calculate_distance gmaps origin_lat origin_lon destination) = Some r
        \<longrightarrow> (\<exists>c h hs res el els rs dist dur.
               gmaps = Some c \<and> destination \<noteq> []
               \<and> geocode c destination = Inr (h # hs)
               \<and> distance_matrix c [(origin_lat, origin_lon)] [(hit_lat h, hit_lng h)]
                    ''driving'' ''metric'' = Inr res
               \<and> rows res = (el # els) # rs
               \<and> status el = ''OK''
               \<and> distance el = Some dist \<and> duration el = Some dur
               \<and> distance_value r = f_value dist))
   \<and> (i < length items
        \<and> snd (calculate_distance gmaps (lat (location (site (items ! i))))
                  (long (location (site (items ! i)))) destination) = None
        \<and> on_calculate gmaps items i destination truck_class = Inr out
        \<longrightarrow> list_all (\<lambda>x. \<not> is_metric x) out)"
proof (intro conjI impI)
  show "calculate_distance None origin_lat origin_lon destination = ([], None)"
    by (simp add: calculate_distance_def)
next
  assume "geocode client destination = Inr []"
  then show "calculate_distance (Some client) origin_lat origin_lon destination = ([], None)"
    by (simp add: calculate_distance_def distance_lookup_def)
next
  assume "geocode client destination = Inr (hit # hits)
        \<and> distance_matrix client [(origin_lat, origin_lon)] [(hit_lat hit, hit_lng hit)]
             ''driving'' ''metric'' = Inr result
        \<and> rows result = (element # elements) # more_rows
        \<and> status element \<noteq> ''OK''"
  then show "calculate_distance (Some client) origin_lat origin_lon destination = ([], None)"
    by (simp add: calculate_distance_def distance_lookup_def first_def Let_def)
next
  assume "snd (calculate_distance gmaps origin_lat origin_lon destination) = Some r"
  from calculate_distance_Some [OF this]
  show "\<exists>c h hs res el els rs dist dur.
               gmaps = Some c \<and> destination \<noteq> []
               \<and> geocode c destination = Inr (h # hs)
               \<and> distance_matrix c [(origin_lat, origin_lon)] [(hit_lat h, hit_lng h)]
                    ''driving'' ''metric'' = Inr res
               \<and> rows res = (el # els) # rs
               \<and> status el = ''OK''
               \<and> distance el = Some dist \<and> duration el = Some dur
               \<and> distance_value r = f_value dist"
    by fastforce
next
  assume a: "i < length items
        \<and> snd (calculate_distance gmaps (lat (location (site (items ! i))))
                  (long (location (site (items ! i)))) destination) = None
        \<and> on_calculate gmaps items i destination truck_class = Inr out"
  show "list_all (\<lambda>x. \<not> is_metric x) out"
    by (rule on_calculate_None_no_metric [of gmaps items i destination truck_class])
      (use a in \<open>auto simp: index_def\<close>)
qed

lemma sample_perth:
  "calculate_distance (Some sample_client) (- 32) 116 ''Perth''
     = ([], Some \<lparr>r_distance = ''100 km'', r_duration = ''1 hour 5 mins'',
                  distance_value = 100000, destination_coords = (- 31, 115)\<rparr>)"
  by (simp add: calculate_distance_def distance_lookup_def sample_client_def first_def
      member_def Let_def)

lemma sample_rottnest:
  "calculate_distance (Some sample_client) (- 32) 116 ''Rottnest Island'' = ([], None)"
  by (simp add: calculate_distance_def distance_lookup_def sample_client_def first_def
      member_def Let_def)

lemma sample_nowhere:
  "calculate_distance (Some sample_client) (- 32) 116 ''Nowhere'' = ([], None)"
  by (simp add: calculate_distance_def distance_lookup_def sample_client_def first_def
      member_def Let_def)

lemma sample_site_position:
  "lat (location (site (sample_site nm c3 c6))) = - 32"
  "long (location (site (sample_site nm c3 c6))) = 116"
  by (simp_all add: sample_site_def)

theorem unavailable_unless_all_succeed_witness:
  "geocode sample_client ''Nowhere'' = Inr []
   \<and> calculate_distance (Some sample_client) (- 32) 116 ''Nowhere'' = ([], None)
   \<and> geocode sample_client ''Rottnest Island'' = Inr [\<lparr>hit_lat = - 32, hit_lng = 231 / 2\<rparr>]
   \<and> calculate_distance (Some sample_client) (- 32) 116 ''Rottnest Island'' = ([], None)
   \<and> snd (calculate_distance (Some sample_client) (- 32) 116 ''Perth'')
       = Some \<lparr>r_distance = ''100 km'', r_duration = ''1 hour 5 mins'',
               distance_value = 100000, destination_coords = (- 31, 115)\<rparr>
   \<and> geocode sample_client ''Perth'' = Inr [\<lparr>hit_lat = - 31, hit_lng = 115\<rparr>]
   \<and> on_calculate (Some sample_client) [sample_site ''Albany Hwy'' 3 5] 0 ''Nowhere''
        ''Class 8 (Artic 5 Axle)''
       = Inr [St_error ''Failed to calculate distance. Please check your destination address.'']
   \<and> list_all (\<lambda>x. \<not> is_metric x)
        [St_error ''Failed to calculate distance. Please check your destination address.'']"
proof -
  have g: "geocode sample_client ''Nowhere'' = Inr []"
    by (simp add: sample_client_def)
  have o: "on_calculate (Some sample_client) [sample_site ''Albany Hwy'' 3 5] 0 ''Nowhere''
        ''Class 8 (Artic 5 Axle)''
       = Inr [St_error ''Failed to calculate distance. Please check your destination address.'']"
    by (simp add: on_calculate_def index_def sample_site_position sample_nowhere show_result_def)
  have p: "geocode sample_client ''Perth'' = Inr [\<lparr>hit_lat = - 31, hit_lng = 115\<rparr>]"
    by (simp add: sample_client_def)
  have r: "geocode sample_client ''Rottnest Island'' = Inr [\<lparr>hit_lat = - 32, hit_lng = 231 / 2\<rparr>]"
    by (simp add: sample_client_def)
  have d: "distance_matrix sample_client [(- 32, 116)] [(- 32, 231 / 2)] ''driving'' ''metric''
     = Inr \<lparr>rows = [[\<lparr>status = ''ZERO_RESULTS'', distance = None, duration = None\<rparr>]]\<rparr>"
    by (simp add: sample_client_def)
  from unavailable_unless_all_succeed [of "- 32" 116 "''Nowhere''" sample_client
      "\<lparr>hit_lat = - 32, hit_lng = 231 / 2\<rparr>" "[]"
      "\<lparr>rows = [[\<lparr>status = ''ZERO_RESULTS'', distance = None, duration = None\<rparr>]]\<rparr>"
      "\<lparr>status = ''ZERO_RESULTS'', distance = None, duration = None\<rparr>" "[]" "[]"
      "Some sample_client" _ 0 "[sample_site ''Albany Hwy'' 3 5]" "''Class 8 (Artic 5 Axle)''"
      "[St_error ''Failed to calculate distance. Please check your destination address.'']"]
  have 1: "calculate_distance (Some sample_client) (- 32) 116 ''Nowhere'' = ([], None)"
    and 2: "list_all (\<lambda>x. \<not> is_metric x)
        [St_error ''Failed to calculate distance. Please check your destination address.'']"
    using g o by (simp_all add: sample_site_position)
  from unavailable_unless_all_succeed [of "- 32" 116 "''Rottnest Island''" sample_client
      "\<lparr>hit_lat = - 32, hit_lng = 231 / 2\<rparr>" "[]"
      "\<lparr>rows = [[\<lparr>status = ''ZERO_RESULTS'', distance = None, duration = None\<rparr>]]\<rparr>"
      "\<lparr>status = ''ZERO_RESULTS'', distance = None, duration = None\<rparr>" "[]" "[]"]
  have 3: "calculate_distance (Some sample_client) (- 32) 116 ''Rottnest Island'' = ([], None)"
    using r d by simp
  from unavailable_unless_all_succeed [of "- 32" 116 "''Perth''" sample_client _ _ _ _ _ _
      "Some sample_client"
      "\<lparr>r_distance = ''100 km'', r_duration = ''1 hour 5 mins'',
               distance_value = 100000, destination_coords = (- 31, 115)\<rparr>"]
  have 4: "geocode sample_client ''Perth'' = Inr [\<lparr>hit_lat = - 31, hit_lng = 115\<rparr>]"
    using p by simp
  show ?thesis using g 1 2 3 4 r o by (simp add: sample_perth)
qed

text \<open>
  C4. For every successful distance result and every truck class of the consumption
  table, the handler shows the fuel estimate \<open>distance_value / 1000 / 100 * rate\<close> and
  the hydrogen estimate \<open>fuel * 45 / 120\<close>; the table holds the seven rates of the
  specification; for 100000 m and "Class 8 (Artic 5 Axle)" the fuel estimate is
  30.44964 and the hydrogen estimate is 30.44964 * 45 / 120, which is 11.42 to two places.
\<close>

theorem fuel_and_hydrogen_estimate:
  assumes "i < length items"
    and "snd (calculate_distance gmaps (lat (location (site (items ! i))))
                (long (location (site (items ! i)))) destination) = Some r"
    and "map_of fuel_consumption truck_class = Some rate"
  shows "on_calculate gmaps items i destination truck_class
           = Inr [St_success ''Distance calculated successfully!'',
                  St_metric ''Distance'' (Text (r_distance r)),
                  St_metric ''Driving Time'' (Text (r_duration r)),
                  St_metric ''Estimated Fuel''
                    (Litres (of_int (distance_value r) / 1000 / 100 * rate)),
                  St_metric ''Hydrogen Usage''
                    (Kilograms (of_int (distance_value r) / 1000 / 100 * rate * 45 / 120)),
                  St_info (roadname (site (items ! i)) @ '' - ''
                             @ locationDesc (site (items ! i))) destination truck_class]
         \<and> map snd fuel_consumption
             = [1245859 / 100000, 2322869 / 100000, 2724712 / 100000, 3044964 / 100000,
                3814329 / 100000, 3814329 / 100000, 4148179 / 100000]
         \<and> (distance_value r = 100000 \<and> truck_class = ''Class 8 (Artic 5 Axle)''
              \<longrightarrow> of_int (distance_value r) / 1000 / 100 * rate = 3044964 / 100000
                \<and> of_int (distance_value r) / 1000 / 100 * rate * 45 / 120
                    = 3044964 / 100000 * 45 / 120
                \<and> \<bar>of_int (distance_value r) / 1000 / 100 * rate * 45 / 120 - 1142 / 100\<bar>
                    < 1 / 200)"
proof (intro conjI impI)
  from calculate_distance_Some [OF assms(2)]
  have g: "gmaps \<noteq> None" "destination \<noteq> []"
    and f: "fst (calculate_distance gmaps (lat (location (site (items ! i))))
                (long (location (site (items ! i)))) destination) = []"
    by auto
  from f assms(2)
  have c: "calculate_distance gmaps (lat (location (site (items ! i))))
             (long (location (site (items ! i)))) destination = ([], Some r)"
    by (simp add: prod_eq_iff)
  show "on_calculate gmaps items i destination truck_class
           = Inr [St_success ''Distance calculated successfully!'',
                  St_metric ''Distance'' (Text (r_distance r)),
                  St_metric ''Driving Time'' (Text (r_duration r)),
                  St_metric ''Estimated Fuel''
                    (Litres (of_int (distance_value r) / 1000 / 100 * rate)),
                  St_metric ''Hydrogen Usage''
                    (Kilograms (of_int (distance_value r) / 1000 / 100 * rate * 45 / 120)),
                  St_info (roadname (site (items ! i)) @ '' - ''
                             @ locationDesc (site (items ! i))) destination truck_class]"
    using g c assms(1,3)
    by (simp add: on_calculate_def index_def show_result_def consumption_of_def Let_def)
  show "map snd fuel_consumption
             = [1245859 / 100000, 2322869 / 100000, 2724712 / 100000, 3044964 / 100000,
                3814329 / 100000, 3814329 / 100000, 4148179 / 100000]"
    by (simp add: fuel_consumption_def)
next
  assume a: "distance_value r = 100000 \<and> truck_class = ''Class 8 (Artic 5 Axle)''"
  with assms(3) have rate: "rate = 3044964 / 100000"
    by (simp add: fuel_consumption_def)
  from a rate show "of_int (distance_value r) / 1000 / 100 * rate = 3044964 / 100000"
    by simp
  from a rate show "of_int (distance_value r) / 1000 / 100 * rate * 45 / 120
                    = 3044964 / 100000 * 45 / 120"
    by simp
  from a rate show "\<bar>of_int (distance_value r) / 1000 / 100 * rate * 45 / 120 - 1142 / 100\<bar>
                    < 1 / 200"
    by simp
qed

theorem fuel_and_hydrogen_estimate_witness:
  "(0::nat) < length [sample_site ''Albany Hwy'' 3 5]
   \<and> snd (calculate_distance (Some sample_client) (- 32) 116 ''Perth'')
       = Some \<lparr>r_distance = ''100 km'', r_duration = ''1 hour 5 mins'',
               distance_value = 100000, destination_coords = (- 31, 115)\<rparr>
   \<and> map_of fuel_consumption ''Class 8 (Artic 5 Axle)'' = Some (3044964 / 100000)
   \<and> on_calculate (Some sample_client) [sample_site ''Albany Hwy'' 3 5] 0 ''Perth''
        ''Class 8 (Artic 5 Axle)''
       = Inr [St_success ''Distance calculated successfully!'',
              St_metric ''Distance'' (Text ''100 km''),
              St_metric ''Driving Time'' (Text ''1 hour 5 mins''),
              St_metric ''Estimated Fuel'' (Litres (3044964 / 100000)),
              St_metric ''Hydrogen Usage'' (Kilograms (2283723 / 200000)),
              St_info ''Albany Hwy - North of Bridge'' ''Perth'' ''Class 8 (Artic 5 Axle)'']"
proof -
  have i: "(0::nat) < length [sample_site ''Albany Hwy'' 3 5]" by simp
  have c: "snd (calculate_distance (Some sample_client)
              (lat (location (site ([sample_site ''Albany Hwy'' 3 5] ! 0))))
              (long (location (site ([sample_site ''Albany Hwy'' 3 5] ! 0)))) ''Perth'')
       = Some \<lparr>r_distance = ''100 km'', r_duration = ''1 hour 5 mins'',
               distance_value = 100000, destination_coords = (- 31, 115)\<rparr>"
    by (simp add: sample_site_position sample_perth)
  have t: "map_of fuel_consumption ''Class 8 (Artic 5 Axle)'' = Some (3044964 / 100000)"
    by (simp add: fuel_consumption_def)
  from fuel_and_hydrogen_estimate [OF i c t] i c t
  show ?thesis by (simp add: sample_site_position) (simp add: sample_site_def)
qed

subsection \<open>Percentile thresholds\<close>

lemma floor_rat_numeral [simp]: "\<lfloor>numeral a / numeral b :: rat\<rfloor> = numeral a div numeral b"
  using floor_divide_of_int_eq [of "numeral a" "numeral b", where ?'a = rat] by simp

lemma interpolate_bounds:
  assumes "sorted s" and "0 \<le> h" and "h \<le> of_nat (length s - 1)" and "s \<noteq> []"
  shows "of_int (s ! nat \<lfloor>h\<rfloor>) \<le> interpolate s h"
    and "interpolate s h \<le> of_int (s ! min (nat \<lfloor>h\<rfloor> + 1) (length s - 1))"
proof -
  let ?lo = "nat \<lfloor>h\<rfloor>"
  let ?hi = "min (?lo + 1) (length s - 1)"
  let ?g = "h - of_int \<lfloor>h\<rfloor>"
  have "\<lfloor>h\<rfloor> \<le> int (length s - 1)"
    using assms(3) by (metis floor_mono floor_of_nat)
  then have lo: "?lo \<le> length s - 1" by linarith
  have hi: "?hi < length s" using assms(4) by (simp add: min_def) (cases s; simp)
  have "?lo \<le> ?hi" using lo by simp
  then have le: "s ! ?lo \<le> s ! ?hi"
    using assms(1) hi by (simp add: sorted_iff_nth_mono)
  have g0: "0 \<le> ?g" and g1: "?g \<le> 1"
    by (simp_all add: of_int_floor_le) linarith
  have d: "(0::rat) \<le> of_int (s ! ?hi) - of_int (s ! ?lo)" using le by simp
  have i: "interpolate s h = of_int (s ! ?lo) + ?g * (of_int (s ! ?hi) - of_int (s ! ?lo))"
    by (simp add: interpolate_def Let_def)
  show "of_int (s ! nat \<lfloor>h\<rfloor>) \<le> interpolate s h"
    unfolding i using g0 d by (simp add: mult_nonneg_nonneg)
  have "?g * (of_int (s ! ?hi) - of_int (s ! ?lo)) \<le> 1 * (of_int (s ! ?hi) - of_int (s ! ?lo))"
    using g1 d by (rule mult_right_mono)
  then show "interpolate s h \<le> of_int (s ! min (nat \<lfloor>h\<rfloor> + 1) (length s - 1))"
    unfolding i by simp
qed

lemma interpolate_mono:
  assumes "sorted s" and "s \<noteq> []" and "0 \<le> h1" and "h1 \<le> h2"
    and "h2 \<le> of_nat (length s - 1)"
  shows "interpolate s h1 \<le> interpolate s h2"
proof (cases "\<lfloor>h1\<rfloor> = \<lfloor>h2\<rfloor>")
  case True
  let ?lo = "nat \<lfloor>h2\<rfloor>"
  let ?hi = "min (?lo + 1) (length s - 1)"
  have "\<lfloor>h2\<rfloor> \<le> int (length s - 1)"
    using assms(5) by (metis floor_mono floor_of_nat)
  then have lo: "?lo \<le> length s - 1" by linarith
  have hi: "?hi < length s" using assms(2) by (simp add: min_def) (cases s; simp)
  have "?lo \<le> ?hi" using lo by simp
  then have "s ! ?lo \<le> s ! ?hi"
    using assms(1) hi by (simp add: sorted_iff_nth_mono)
  then have d: "(0::rat) \<le> of_int (s ! ?hi) - of_int (s ! ?lo)" by simp
  have "(h1 - of_int \<lfloor>h2\<rfloor>) * (of_int (s ! ?hi) - of_int (s ! ?lo))
          \<le> (h2 - of_int \<lfloor>h2\<rfloor>) * (of_int (s ! ?hi) - of_int (s ! ?lo))"
    using assms(4) d by (intro mult_right_mono) simp_all
  then show ?thesis
    by (simp add: interpolate_def Let_def True)
next
  case False
  have "\<lfloor>h1\<rfloor> \<le> \<lfloor>h2\<rfloor>" using assms(4) by (rule floor_mono)
  with False have lt: "\<lfloor>h1\<rfloor> < \<lfloor>h2\<rfloor>" by simp
  have h1n: "0 \<le> \<lfloor>h1\<rfloor>" using assms(3) by simp
  have "\<lfloor>h2\<rfloor> \<le> int (length s - 1)"
    using assms(5) by (metis floor_mono floor_of_nat)
  then have lo2: "nat \<lfloor>h2\<rfloor> \<le> length s - 1" by linarith
  then have lo2': "nat \<lfloor>h2\<rfloor> < length s" using assms(2) by (cases s) simp_all
  have "min (nat \<lfloor>h1\<rfloor> + 1) (length s - 1) \<le> nat \<lfloor>h2\<rfloor>"
    using lt h1n by linarith
  then have mid: "s ! min (nat \<lfloor>h1\<rfloor> + 1) (length s - 1) \<le> s ! nat \<lfloor>h2\<rfloor>"
    using assms(1) lo2' by (simp add: sorted_iff_nth_mono)
  have a: "interpolate s h1 \<le> of_int (s ! min (nat \<lfloor>h1\<rfloor> + 1) (length s - 1))"
    using assms by (intro interpolate_bounds(2)) simp_all
  have b: "of_int (s ! nat \<lfloor>h2\<rfloor>) \<le> interpolate s h2"
    using assms by (intro interpolate_bounds(1)) simp_all
  from mid have "(of_int (s ! min (nat \<lfloor>h1\<rfloor> + 1) (length s - 1)) :: rat)
      \<le> of_int (s ! nat \<lfloor>h2\<rfloor>)" by simp
  with a b show ?thesis by linarith
qed

lemma quantile_mono:
  assumes "xs \<noteq> []" and "0 \<le> q1" and "q1 \<le> q2" and "q2 \<le> 1"
  shows "quantile xs q1 \<le> quantile xs q2"
proof -
  have n: "(0::rat) \<le> of_nat (length xs - 1)" by simp
  have 1: "0 \<le> of_nat (length xs - 1) * q1" using n assms(2) by (rule mult_nonneg_nonneg)
  have 2: "of_nat (length xs - 1) * q1 \<le> of_nat (length xs - 1) * q2"
    using assms(3) n by (rule mult_left_mono)
  have "of_nat (length xs - 1) * q2 \<le> of_nat (length xs - 1) * 1"
    using assms(4) n by (rule mult_left_mono)
  then have 3: "of_nat (length xs - 1) * q2 \<le> of_nat (length (sort xs) - 1)" by simp
  have "sort xs \<noteq> []" using assms(1) by (metis length_sort length_0_conv)
  with 1 2 3 show ?thesis
    unfolding quantile_def by (intro interpolate_mono) simp_all
qed

lemma quantile_pair_ordered: "snd (quantile_pair counts) \<le> fst (quantile_pair counts)"
  by (simp add: quantile_pair_def quantile_mono)

lemma quantile_single: "quantile [x] q = of_int x"
  by (simp add: quantile_def interpolate_def)

lemma thresholds_are_quantile_pair:
  "thresholds sel keys items = Inr th \<Longrightarrow> \<exists>counts. th = quantile_pair counts"
  by (auto simp: thresholds_def bind_eq_Inr split: if_splits)

text \<open>
  C7. Whenever the thresholds are computed, for a class selection or for all classes
  and for any list of sites, the lower threshold (the 33rd percentile) is at most the
  upper threshold (the 67th percentile).
\<close>

theorem low_threshold_le_high_threshold:
  "thresholds selected keys items = Inr (top_third_threshold, middle_third_threshold)
     \<Longrightarrow> middle_third_threshold \<le> top_third_threshold"
proof -
  assume "thresholds selected keys items = Inr (top_third_threshold, middle_third_threshold)"
  from thresholds_are_quantile_pair [OF this] obtain counts
    where "(top_third_threshold, middle_third_threshold) = quantile_pair counts" ..
  with quantile_pair_ordered [of counts] show ?thesis
    by (metis fst_conv snd_conv)
qed

lemma sample_site_sum_get:
  "sum_get (sample_site nm c3 c6) [''Class3'', ''Class6''] = c3 + c6"
  "sum_get (sample_site nm c3 c6) [''Class6''] = c6"
  by (simp_all add: sum_get_def get_default_def sample_site_def)

lemma sample_thresholds_all:
  "thresholds [] [] [sample_site ''A'' 10 0, sample_site ''B'' 20 30, sample_site ''C'' 50 40]
     = Inr (318 / 5, 182 / 5)"
  by (simp add: thresholds_def total_of_has_classes sample_site_has_classes sample_site_total
      quantile_pair_def quantile_def interpolate_def)

lemma sample_thresholds_selected:
  "thresholds [''Class 6''] [''Class6'']
     [sample_site ''A'' 10 0, sample_site ''B'' 20 30, sample_site ''C'' 50 40]
     = Inr (167 / 5, 99 / 5)"
  by (simp add: thresholds_def sample_site_sum_get
      quantile_pair_def quantile_def interpolate_def)

theorem low_threshold_le_high_threshold_witness:
  "thresholds [] [] [sample_site ''A'' 10 0, sample_site ''B'' 20 30, sample_site ''C'' 50 40]
     = Inr (318 / 5, 182 / 5)
   \<and> (182 / 5 :: rat) \<le> 318 / 5
   \<and> thresholds [''Class 6''] [''Class6'']
        [sample_site ''A'' 10 0, sample_site ''B'' 20 30, sample_site ''C'' 50 40]
       = Inr (167 / 5, 99 / 5)
   \<and> (99 / 5 :: rat) \<le> 167 / 5"
  using low_threshold_le_high_threshold [OF sample_thresholds_all]
    low_threshold_le_high_threshold [OF sample_thresholds_selected]
    sample_thresholds_all sample_thresholds_selected
  by simp

subsection \<open>Class keys and aggregates\<close>

lemma class_key_of_label:
  "n \<in> {3..10} \<Longrightarrow> class_key (class_label n) = Inr (class_field n)"
  by (auto simp: atLeastAtMost_3_10 class_key_def class_label_def class_field_def
      number_text_def split_def is_space_def)

lemma class_options_are_labels: "class_options = map class_label [3..<11]"
  by (simp add: class_options_def class_label_def number_text_def upt_rec)

lemma class_fields_are_fields: "class_fields = map class_field [3..<11]"
  by (simp add: class_fields_def class_field_def number_text_def upt_rec)

lemma class_field_in_fields: "n \<in> {3..10} \<Longrightarrow> class_field n \<in> set class_fields"
proof -
  assume "n \<in> {3..10}"
  moreover have "{3..10::nat} = set [3..<11]" unfolding set_upt by auto
  ultimately have "n \<in> set [3..<11]" by (simp only:)
  then have "class_field n \<in> class_field ` set [3..<11]" by (rule imageI)
  then show ?thesis unfolding class_fields_are_fields by (simp only: set_map)
qed

lemma map_raise_class_key:
  "set ns \<subseteq> {3..10} \<Longrightarrow> map_raise class_key (map class_label ns) = Inr (map class_field ns)"
  by (induction ns) (simp_all add: class_key_of_label)

lemma class_keys_of_labels:
  "set ns \<subseteq> {3..10} \<Longrightarrow> class_keys (map class_label ns) = Inr (map class_field ns)"
  by (simp add: class_keys_def map_raise_class_key)

lemma sum_get_fields:
  "sum_get item (map class_field ns) = (\<Sum>n\<leftarrow>ns. class_count item n)"
  by (simp add: sum_get_def class_count_def comp_def)

lemma sum_get_aggregate:
  "distinct ns \<Longrightarrow> ns \<noteq> [] \<Longrightarrow> sum_get item (map class_field ns) = aggregate ns item"
  by (simp add: sum_get_fields aggregate_def sum_list_distinct_conv_sum_set)

lemma sum_getitem_fields:
  assumes "has_classes item" and "set ns \<subseteq> {3..10}"
  shows "sum_getitem item (map class_field ns) = Inr (sum_get item (map class_field ns))"
  by (rule sum_getitem_has_classes [OF assms(1)]) (use assms(2) class_field_in_fields in auto)

lemma class_lines_of_labels:
  assumes "has_classes item" and "set ns \<subseteq> {3..10}"
  shows "map_raise (class_line item) (map class_label ns)
           = Inr (map (\<lambda>n. (class_label n, class_count item n)) ns)"
  using assms(2)
proof (induction ns)
  case Nil
  then show ?case by simp
next
  case (Cons n ns)
  then have n: "n \<in> {3..10}" by simp
  have "class_line item (class_label n) = Inr (class_label n, class_count item n)"
    by (simp add: class_line_def class_key_of_label [OF n]
        has_classes_getitem [OF assms(1) class_field_in_fields [OF n]] class_count_def)
  with Cons show ?case by simp
qed

lemma per_class_counts:
  assumes "has_classes item"
  shows "map_raise (getitem item) class_fields = Inr (map (class_count item) [3..<11])"
proof -
  have "set ks \<subseteq> set class_fields
          \<Longrightarrow> map_raise (getitem item) ks = Inr (map (\<lambda>k. get_default item k 0) ks)" for ks
    by (induction ks) (simp_all add: has_classes_getitem [OF assms])
  from this [of class_fields] show ?thesis
    by (simp add: class_fields_are_fields class_count_def comp_def)
qed

text \<open>The marker of a site with all eight counts, for a selection of classes 3 to 10.\<close>

lemma site_marker_selected:
  assumes "has_classes item" and "set ns \<subseteq> {3..10}" and "distinct ns" and "ns \<noteq> []"
  shows "site_marker (map class_label ns) (map class_field ns) top_t mid_t item
           = Inr \<lparr>position = (lat (location (site item)), long (location (site item))),
                  popup = SelectionPopup (roadname (site item)) (siteNumber (site item))
                            (locationDesc (site item)) (roadDir (site item))
                            (all_classes_total item) (map class_label ns) (aggregate ns item)
                            (map (\<lambda>n. (class_label n, class_count item n)) ns),
                  tooltip = SelectionTip (roadname (site item)) (map class_label ns)
                              (aggregate ns item),
                  color = marker_color (aggregate ns item) top_t mid_t,
                  icon = ''truck''\<rparr>"
  using assms(4)
  by (simp add: site_marker_def Let_def sum_getitem_fields [OF assms(1,2)]
      sum_get_aggregate [OF assms(3,4)] class_lines_of_labels [OF assms(1,2)]
      total_of_has_classes [OF assms(1)])

lemma site_marker_all:
  assumes "has_classes item"
  shows "site_marker [] keys top_t mid_t item
           = Inr \<lparr>position = (lat (location (site item)), long (location (site item))),
                  popup = AllClassesPopup (roadname (site item)) (siteNumber (site item))
                            (locationDesc (site item)) (roadDir (site item))
                            (all_classes_total item) (map (class_count item) [3..<11]),
                  tooltip = TotalTip (roadname (site item)) (aggregate [] item),
                  color = marker_color (aggregate [] item) top_t mid_t,
                  icon = ''truck''\<rparr>"
  by (simp add: site_marker_def Let_def per_class_counts [OF assms]
      total_of_has_classes [OF assms] aggregate_def)

lemma thresholds_of_aggregates:
  assumes "\<forall>item \<in> set items. has_classes item" and "distinct ns"
  shows "thresholds (map class_label ns) (map class_field ns) items
           = Inr (quantile_pair (map (aggregate ns) items))"
proof (cases "ns = []")
  case True
  have "\<forall>item \<in> set items. \<exists>t. total_class3plus item = Inr t \<and> t = aggregate [] item"
    using assms(1) by (simp add: total_of_has_classes aggregate_def)
  from map_raise_all_Inr [where f = total_class3plus and xs = items
      and P = "\<lambda>item t. t = aggregate [] item", OF this]
  obtain ts where ts: "map_raise total_class3plus items = Inr ts" "length ts = length items"
    "\<forall>i < length items. ts ! i = aggregate [] (items ! i)" by blast
  then have "ts = map (aggregate []) items"
    by (simp add: list_eq_iff_nth_eq)
  with ts(1) True show ?thesis by (simp add: thresholds_def)
next
  case False
  then show ?thesis
    by (simp add: thresholds_def sum_get_aggregate [OF assms(2)])
qed

subsection \<open>The heap: what a call can change\<close>

lemma add_to_length [simp]: "length (add_to c m h) = length h"
  by (simp add: add_to_def split: option.splits obj.splits)

lemma add_to_other: "i \<noteq> m \<Longrightarrow> add_to c m h ! i = h ! i"
  by (simp add: add_to_def split: option.splits obj.splits)

lemma add_to_at_end:
  "add_to c (length h) (h @ [FoliumMap fm])
     = h @ [FoliumMap (fm\<lparr>children := children fm @ [c]\<rparr>)]"
  by (simp add: add_to_def deref_def)

lemma add_traffic_markers_frame:
  "add_traffic_markers sel keys top_t mid_t items m h = (h', r)
     \<Longrightarrow> length h' = length h \<and> (\<forall>i. i \<noteq> m \<longrightarrow> h' ! i = h ! i)"
proof (induction items arbitrary: h)
  case Nil
  then show ?case by simp
next
  case (Cons item rest)
  show ?case
  proof (cases "site_marker sel keys top_t mid_t item")
    case (Inl e)
    with Cons.prems show ?thesis by simp
  next
    case (Inr mk)
    with Cons.prems have "add_traffic_markers sel keys top_t mid_t rest m
        (add_to (Marker mk) m h) = (h', r)" by simp
    from Cons.IH [OF this] show ?thesis by (simp add: add_to_other)
  qed
qed

lemma add_station_markers_frame:
  "add_station_markers sts m h = (h', r)
     \<Longrightarrow> length h' = length h \<and> (\<forall>i. i \<noteq> m \<longrightarrow> h' ! i = h ! i)"
proof (induction sts arbitrary: h)
  case Nil
  then show ?case by simp
next
  case (Cons st rest)
  show ?case
  proof (cases "station_marker st")
    case (Inl e)
    with Cons.prems show ?thesis by simp
  next
    case (Inr mk)
    with Cons.prems have "add_station_markers rest m (add_to (Marker mk) m h) = (h', r)"
      by simp
    from Cons.IH [OF this] show ?thesis by (simp add: add_to_other)
  qed
qed

lemma add_layer_frame:
  "length (add_layer show layer style m h) = length h
   \<and> (\<forall>i. i \<noteq> m \<longrightarrow> add_layer show layer style m h ! i = h ! i)"
  by (simp add: add_layer_def add_to_other split: option.splits)

lemma after_thresholds_frame:
  assumes "after_thresholds a items keys th m h = (h', r)"
  shows "length h' = length h \<and> (\<forall>i. i \<noteq> m \<longrightarrow> h' ! i = h ! i)"
proof -
  obtain h1 r1 where t: "(if show_traffic a
            then add_traffic_markers (selected_classes a) keys (fst th) (snd th) items m h
            else (h, Inr ())) = (h1, r1)" by (cases "(if show_traffic a
            then add_traffic_markers (selected_classes a) keys (fst th) (snd th) items m h
            else (h, Inr ()))") 
  then have f1: "length h1 = length h \<and> (\<forall>i. i \<noteq> m \<longrightarrow> h1 ! i = h ! i)"
    using add_traffic_markers_frame by (auto split: if_splits)
  obtain h2 r2 where s: "(case hydrogen_stations a of
                   Some sts \<Rightarrow>
                     (if show_hydrogen a \<and> sts \<noteq> [] then add_station_markers sts m h1
                      else (h1, Inr ()))
                 | None \<Rightarrow> (h1, Inr ())) = (h2, r2)" by (cases "(case hydrogen_stations a of
                   Some sts \<Rightarrow>
                     (if show_hydrogen a \<and> sts \<noteq> [] then add_station_markers sts m h1
                      else (h1, Inr ()))
                 | None \<Rightarrow> (h1, Inr ()))")
  then have f2: "length h2 = length h1 \<and> (\<forall>i. i \<noteq> m \<longrightarrow> h2 ! i = h1 ! i)"
    using add_station_markers_frame by (auto split: if_splits option.splits)
  show ?thesis
  proof (cases r1)
    case (Inl e)
    with assms t have "h' = h1" by (simp add: after_thresholds_def)
    with f1 show ?thesis by simp
  next
    case r1: (Inr u)
    show ?thesis
    proof (cases r2)
      case (Inl e)
      with assms t s r1 have "h' = h2" by (simp add: after_thresholds_def)
      with f1 f2 show ?thesis by simp
    next
      case (Inr u2)
      with assms t s r1 have "h' = add_layer (show_secondary a) (secondary_data a)
               \<lparr>line_color = ''green'', weight = 2, opacity = 6 / 10\<rparr> m
             (add_layer (show_roads a) (road_data a)
               \<lparr>line_color = ''blue'', weight = 4, opacity = 8 / 10\<rparr> m
             (add_layer (show_railway a) (railway_data a)
               \<lparr>line_color = ''red'', weight = 3, opacity = 7 / 10\<rparr> m h2))"
        by (simp add: after_thresholds_def Let_def)
      with f1 f2 show ?thesis by (simp add: add_layer_frame)
    qed
  qed
qed

lemma create_traffic_map_frame:
  assumes "create_traffic_map h a = (h', r)"
  shows "length h \<le> length h' \<and> (\<forall>i < length h. h' ! i = h ! i)"
proof (cases "deref h (data a)")
  case None
  with assms show ?thesis by (simp add: create_traffic_map_def)
next
  case (Some ob)
  show ?thesis
  proof (cases ob)
    case (FoliumMap fm)
    with Some assms show ?thesis by (simp add: create_traffic_map_def)
  next
    case (Sites items)
    show ?thesis
    proof (cases "items = []")
      case True
      with Some Sites assms show ?thesis by (simp add: create_traffic_map_def)
    next
      case False
      let ?c = "bind (mean (map (\<lambda>item. lat (location (site item))) items)) (\<lambda>center_lat.
                  bind (mean (map (\<lambda>item. long (location (site item))) items)) (\<lambda>center_lon.
                    Inr (center_lat, center_lon)))"
      show ?thesis
      proof (cases ?c)
        case (Inl e)
        with Some Sites False assms show ?thesis by (simp add: create_traffic_map_def)
      next
        case (Inr center)
        let ?h0 = "h @ [FoliumMap \<lparr>map_location = center, zoom_start = 8,
                                tiles = ''OpenStreetMap'', children = []\<rparr>]"
        let ?k = "bind (class_keys (selected_classes a)) (\<lambda>keys.
                            bind (thresholds (selected_classes a) keys items) (\<lambda>th.
                              Inr (keys, th)))"
        show ?thesis
        proof (cases ?k)
          case (Inl e)
          with Some Sites False Inr assms have "h' = ?h0"
            by (simp add: create_traffic_map_def new_map_def)
          then show ?thesis by (simp add: nth_append)
        next
          case kt: (Inr kt)
          obtain keys th where kt': "kt = (keys, th)" by (cases kt)
          with Some Sites False Inr kt assms
          have "after_thresholds a items keys th (length h) ?h0 = (h', r)"
            by (simp add: create_traffic_map_def new_map_def)
          from after_thresholds_frame [OF this]
          show ?thesis by (auto simp: nth_append)
        qed
      qed
    qed
  qed
qed

subsection \<open>The map that a call builds\<close>

lemma add_traffic_markers_fold:
  "map_raise (site_marker sel keys top_t mid_t) items = Inr mks
     \<Longrightarrow> add_traffic_markers sel keys top_t mid_t items m h
           = (fold (\<lambda>mk. add_to (Marker mk) m) mks h, Inr ())"
proof (induction items arbitrary: h mks)
  case Nil
  then show ?case by simp
next
  case (Cons item rest)
  from Cons.prems obtain mk mks' where mk: "site_marker sel keys top_t mid_t item = Inr mk"
    and rest: "map_raise (site_marker sel keys top_t mid_t) rest = Inr mks'"
    and mks: "mks = mk # mks'"
    by (auto simp: bind_eq_Inr)
  from Cons.IH [OF rest] mk mks show ?case by simp
qed

lemma add_station_markers_fold:
  "map_raise station_marker sts = Inr mks
     \<Longrightarrow> add_station_markers sts m h = (fold (\<lambda>mk. add_to (Marker mk) m) mks h, Inr ())"
proof (induction sts arbitrary: h mks)
  case Nil
  then show ?case by simp
next
  case (Cons st rest)
  from Cons.prems obtain mk mks' where mk: "station_marker st = Inr mk"
    and rest: "map_raise station_marker rest = Inr mks'"
    and mks: "mks = mk # mks'"
    by (auto simp: bind_eq_Inr)
  from Cons.IH [OF rest] mk mks show ?case by simp
qed

lemma fold_add_to_at_end:
  "fold (\<lambda>mk. add_to (Marker mk) (length h)) mks (h @ [FoliumMap fm])
     = h @ [FoliumMap (fm\<lparr>children := children fm @ map Marker mks\<rparr>)]"
  by (induction mks arbitrary: fm) (simp_all add: add_to_at_end)

lemma add_layer_at_end:
  "\<exists>cs. add_layer show layer style (length h) (h @ [FoliumMap fm])
          = h @ [FoliumMap (fm\<lparr>children := children fm @ cs\<rparr>)]"
proof (cases "\<exists>g. layer = Some g \<and> show \<and> g \<noteq> []")
  case True
  then show ?thesis by (auto simp: add_layer_def add_to_at_end)
next
  case False
  then have "add_layer show layer style (length h) (h @ [FoliumMap fm])
          = h @ [FoliumMap (fm\<lparr>children := children fm @ []\<rparr>)]"
    by (auto simp: add_layer_def split: option.splits)
  then show ?thesis by blast
qed

lemma stations_ok_markers:
  "list_all (\<lambda>st. usage_case st \<noteq> Some NaN) sts \<Longrightarrow> \<exists>mks. map_raise station_marker sts = Inr mks"
proof (induction sts)
  case Nil
  then show ?case by simp
next
  case (Cons st rest)
  then obtain mks where "map_raise station_marker rest = Inr mks" by auto
  moreover from Cons.prems have "\<exists>mk. station_marker st = Inr mk"
    by (auto simp: station_marker_def usage_text_def split: option.splits cell.splits)
  ultimately show ?case by auto
qed

lemma after_thresholds_at_end:
  assumes "show_traffic a"
    and "map_raise (site_marker (selected_classes a) keys (fst th) (snd th)) items = Inr mks"
    and "stations_ok (hydrogen_stations a)"
  shows "\<exists>rest. after_thresholds a items keys th (length h) (h @ [FoliumMap fm])
           = (h @ [FoliumMap (fm\<lparr>children := children fm @ map Marker mks @ rest\<rparr>)],
              Inr (Some (length h)))"
proof -
  let ?fm1 = "fm\<lparr>children := children fm @ map Marker mks\<rparr>"
  have t: "add_traffic_markers (selected_classes a) keys (fst th) (snd th) items (length h)
             (h @ [FoliumMap fm]) = (h @ [FoliumMap ?fm1], Inr ())"
    by (simp add: add_traffic_markers_fold [OF assms(2)] fold_add_to_at_end)
  have "\<exists>smks. (case hydrogen_stations a of
                   Some sts \<Rightarrow>
                     (if show_hydrogen a \<and> sts \<noteq> []
                      then add_station_markers sts (length h) (h @ [FoliumMap ?fm1])
                      else (h @ [FoliumMap ?fm1], Inr ()))
                 | None \<Rightarrow> (h @ [FoliumMap ?fm1], Inr ()))
          = (h @ [FoliumMap (?fm1\<lparr>children := children ?fm1 @ map Marker smks\<rparr>)], Inr ())"
  proof (cases "\<exists>sts. hydrogen_stations a = Some sts \<and> show_hydrogen a \<and> sts \<noteq> []")
    case True
    then obtain sts where sts: "hydrogen_stations a = Some sts" "show_hydrogen a" "sts \<noteq> []"
      by blast
    with assms(3) obtain smks where "map_raise station_marker sts = Inr smks"
      using stations_ok_markers by (auto simp: stations_ok_def)
    from add_station_markers_fold [OF this, of "length h" "h @ [FoliumMap ?fm1]"] sts
    show ?thesis by (simp only: fold_add_to_at_end) auto
  next
    case False
    then have "(case hydrogen_stations a of
                   Some sts \<Rightarrow>
                     (if show_hydrogen a \<and> sts \<noteq> []
                      then add_station_markers sts (length h) (h @ [FoliumMap ?fm1])
                      else (h @ [FoliumMap ?fm1], Inr ()))
                 | None \<Rightarrow> (h @ [FoliumMap ?fm1], Inr ()))
          = (h @ [FoliumMap (?fm1\<lparr>children := children ?fm1 @ map Marker []\<rparr>)], Inr ())"
      by (auto split: option.splits)
    then show ?thesis by blast
  qed
  then obtain smks where s: "(case hydrogen_stations a of
                   Some sts \<Rightarrow>
                     (if show_hydrogen a \<and> sts \<noteq> []
                      then add_station_markers sts (length h) (h @ [FoliumMap ?fm1])
                      else (h @ [FoliumMap ?fm1], Inr ()))
                 | None \<Rightarrow> (h @ [FoliumMap ?fm1], Inr ()))
          = (h @ [FoliumMap (?fm1\<lparr>children := children ?fm1 @ map Marker smks\<rparr>)], Inr ())"
    by blast
  let ?fm2 = "?fm1\<lparr>children := children ?fm1 @ map Marker smks\<rparr>"
  obtain c3 where l3: "add_layer (show_railway a) (railway_data a)
      \<lparr>line_color = ''red'', weight = 3, opacity = 7 / 10\<rparr> (length h) (h @ [FoliumMap ?fm2])
      = h @ [FoliumMap (?fm2\<lparr>children := children ?fm2 @ c3\<rparr>)]"
    using add_layer_at_end by blast
  let ?fm3 = "?fm2\<lparr>children := children ?fm2 @ c3\<rparr>"
  obtain c4 where l4: "add_layer (show_roads a) (road_data a)
      \<lparr>line_color = ''blue'', weight = 4, opacity = 8 / 10\<rparr> (length h) (h @ [FoliumMap ?fm3])
      = h @ [FoliumMap (?fm3\<lparr>children := children ?fm3 @ c4\<rparr>)]"
    using add_layer_at_end by blast
  let ?fm4 = "?fm3\<lparr>children := children ?fm3 @ c4\<rparr>"
  obtain c5 where l5: "add_layer (show_secondary a) (secondary_data a)
      \<lparr>line_color = ''green'', weight = 2, opacity = 6 / 10\<rparr> (length h) (h @ [FoliumMap ?fm4])
      = h @ [FoliumMap (?fm4\<lparr>children := children ?fm4 @ c5\<rparr>)]"
    using add_layer_at_end by blast
  have "after_thresholds a items keys th (length h) (h @ [FoliumMap fm])
          = (h @ [FoliumMap (?fm4\<lparr>children := children ?fm4 @ c5\<rparr>)], Inr (Some (length h)))"
    using assms(1) by (simp only: after_thresholds_def t s l3 l4 l5 Let_def if_True prod.case sum.case)
  moreover have "?fm4\<lparr>children := children ?fm4 @ c5\<rparr>
      = fm\<lparr>children := children fm @ map Marker mks @ (map Marker smks @ c3 @ c4 @ c5)\<rparr>"
    by simp
  ultimately show ?thesis by (metis (no_types))
qed

lemma mean_nonempty: "values \<noteq> [] \<Longrightarrow> \<exists>v. mean values = Inr v"
  by (simp add: mean_def)

lemma create_traffic_map_builds:
  assumes "deref h (data a) = Some (Sites items)" and "items \<noteq> []"
    and "class_keys (selected_classes a) = Inr keys"
    and "thresholds (selected_classes a) keys items = Inr th"
    and "show_traffic a"
    and "map_raise (site_marker (selected_classes a) keys (fst th) (snd th)) items = Inr mks"
    and "stations_ok (hydrogen_stations a)"
  shows "\<exists>fm rest. create_traffic_map h a = (h @ [FoliumMap fm], Inr (Some (length h)))
           \<and> children fm = map Marker mks @ rest"
proof -
  from assms(2) obtain clat where clat: "mean (map (\<lambda>item. lat (location (site item))) items)
      = Inr clat" using mean_nonempty [of "map (\<lambda>item. lat (location (site item))) items"]
    by auto
  from assms(2) obtain clon where clon: "mean (map (\<lambda>item. long (location (site item))) items)
      = Inr clon" using mean_nonempty [of "map (\<lambda>item. long (location (site item))) items"]
    by auto
  let ?fm0 = "\<lparr>map_location = (clat, clon), zoom_start = 8,
                tiles = ''OpenStreetMap'', children = []\<rparr>"
  from after_thresholds_at_end [OF assms(5,6,7), of h ?fm0]
  obtain rest where r: "after_thresholds a items keys th (length h) (h @ [FoliumMap ?fm0])
           = (h @ [FoliumMap (?fm0\<lparr>children := children ?fm0 @ map Marker mks @ rest\<rparr>)],
              Inr (Some (length h)))" by blast
  have "create_traffic_map h a
          = (h @ [FoliumMap (?fm0\<lparr>children := children ?fm0 @ map Marker mks @ rest\<rparr>)],
             Inr (Some (length h)))"
    using assms(1,2,3,4) clat clon r
    by (simp add: create_traffic_map_def new_map_def)
  then show ?thesis by force
qed

subsection \<open>Classification\<close>

lemma marker_color_cases:
  "(marker_color c top_t mid_t = ''red'' \<longleftrightarrow> of_int c > top_t)
   \<and> (marker_color c top_t mid_t = ''orange'' \<longleftrightarrow> of_int c > mid_t \<and> \<not> of_int c > top_t)
   \<and> (marker_color c top_t mid_t = ''green'' \<longleftrightarrow> \<not> of_int c > mid_t \<and> \<not> of_int c > top_t)"
  by (simp add: marker_color_def)

lemma site_marker_classified:
  assumes "has_classes item" and "set ns \<subseteq> {3..10}" and "distinct ns"
  shows "\<exists>mk. site_marker (map class_label ns) (map class_field ns) top_t mid_t item = Inr mk
           \<and> position mk = (lat (location (site item)), long (location (site item)))
           \<and> color mk = marker_color (aggregate ns item) top_t mid_t
           \<and> tooltip mk = (if ns = [] then TotalTip (roadname (site item)) (aggregate ns item)
                           else SelectionTip (roadname (site item)) (map class_label ns)
                                  (aggregate ns item))"
proof (cases "ns = []")
  case True
  then show ?thesis using site_marker_all [OF assms(1)] by simp
next
  case False
  then show ?thesis using site_marker_selected [OF assms(1,2,3) False] by simp
qed

text \<open>
  C2. For every non-empty list of sites with the eight class counts and every selection
  of classes 3 to 10, the thresholds are computed and the loop builds exactly one marker
  per site, in order. The marker of a site is red exactly when its aggregate exceeds the
  upper threshold, orange exactly when it exceeds the lower but not the upper threshold,
  and green exactly otherwise. With the traffic layer shown, these markers are the first
  children of the map that \<open>create_traffic_map\<close> returns.
\<close>

theorem tiers_partition_sites:
  assumes "items \<noteq> []" and "\<forall>item \<in> set items. has_classes item"
    and "distinct ns" and "set ns \<subseteq> {3..10}"
  shows "\<exists>top_t mid_t mks.
           class_keys (map class_label ns) = Inr (map class_field ns)
           \<and> thresholds (map class_label ns) (map class_field ns) items = Inr (top_t, mid_t)
           \<and> map_raise (site_marker (map class_label ns) (map class_field ns) top_t mid_t) items
               = Inr mks
           \<and> (\<forall>m h. add_traffic_markers (map class_label ns) (map class_field ns) top_t mid_t
                       items m h
                     = (fold (\<lambda>mk. add_to (Marker mk) m) mks h, Inr ()))
           \<and> length mks = length items
           \<and> (\<forall>i < length items.
                 position (mks ! i) = (lat (location (site (items ! i))),
                                       long (location (site (items ! i))))
                 \<and> (color (mks ! i) = ''red''
                      \<longleftrightarrow> of_int (aggregate ns (items ! i)) > top_t)
                 \<and> (color (mks ! i) = ''orange''
                      \<longleftrightarrow> of_int (aggregate ns (items ! i)) > mid_t
                          \<and> \<not> of_int (aggregate ns (items ! i)) > top_t)
                 \<and> (color (mks ! i) = ''green''
                      \<longleftrightarrow> \<not> of_int (aggregate ns (items ! i)) > mid_t
                          \<and> \<not> of_int (aggregate ns (items ! i)) > top_t))
           \<and> (\<forall>h a. deref h (data a) = Some (Sites items)
                  \<and> selected_classes a = map class_label ns
                  \<and> show_traffic a \<and> stations_ok (hydrogen_stations a)
                  \<longrightarrow> (\<exists>fm rest. create_traffic_map h a
                                    = (h @ [FoliumMap fm], Inr (Some (length h)))
                         \<and> children fm = map Marker mks @ rest))"
proof -
  let ?sel = "map class_label ns" and ?keys = "map class_field ns"
  obtain top_t mid_t where q: "quantile_pair (map (aggregate ns) items) = (top_t, mid_t)"
    by (cases "quantile_pair (map (aggregate ns) items)")
  have keys: "class_keys ?sel = Inr ?keys" by (rule class_keys_of_labels [OF assms(4)])
  have th: "thresholds ?sel ?keys items = Inr (top_t, mid_t)"
    by (simp add: thresholds_of_aggregates [OF assms(2,3)] q)
  have "\<forall>item \<in> set items. \<exists>mk. site_marker ?sel ?keys top_t mid_t item = Inr mk
          \<and> (position mk = (lat (location (site item)), long (location (site item)))
             \<and> color mk = marker_color (aggregate ns item) top_t mid_t)"
    using site_marker_classified [OF _ assms(4,3)] assms(2) by blast
  from map_raise_all_Inr [where f = "site_marker ?sel ?keys top_t mid_t" and xs = items
      and P = "\<lambda>item mk. position mk = (lat (location (site item)), long (location (site item)))
             \<and> color mk = marker_color (aggregate ns item) top_t mid_t", OF this]
  obtain mks where mks: "map_raise (site_marker ?sel ?keys top_t mid_t) items = Inr mks"
    and len: "length mks = length items"
    and each: "\<forall>i < length items.
        position (mks ! i) = (lat (location (site (items ! i))),
                              long (location (site (items ! i))))
        \<and> color (mks ! i) = marker_color (aggregate ns (items ! i)) top_t mid_t"
    by blast
  have loop: "\<forall>m h. add_traffic_markers ?sel ?keys top_t mid_t items m h
                     = (fold (\<lambda>mk. add_to (Marker mk) m) mks h, Inr ())"
    using add_traffic_markers_fold [OF mks] by blast
  have tiers: "\<forall>i < length items.
                 position (mks ! i) = (lat (location (site (items ! i))),
                                       long (location (site (items ! i))))
                 \<and> (color (mks ! i) = ''red''
                      \<longleftrightarrow> of_int (aggregate ns (items ! i)) > top_t)
                 \<and> (color (mks ! i) = ''orange''
                      \<longleftrightarrow> of_int (aggregate ns (items ! i)) > mid_t
                          \<and> \<not> of_int (aggregate ns (items ! i)) > top_t)
                 \<and> (color (mks ! i) = ''green''
                      \<longleftrightarrow> \<not> of_int (aggregate ns (items ! i)) > mid_t
                          \<and> \<not> of_int (aggregate ns (items ! i)) > top_t)"
    using each marker_color_cases by simp
  have whole: "\<forall>h a. deref h (data a) = Some (Sites items)
                  \<and> selected_classes a = map class_label ns
                  \<and> show_traffic a \<and> stations_ok (hydrogen_stations a)
                  \<longrightarrow> (\<exists>fm rest. create_traffic_map h a
                                    = (h @ [FoliumMap fm], Inr (Some (length h)))
                         \<and> children fm = map Marker mks @ rest)"
  proof (intro allI impI)
    fix h and a :: map_args
    assume a: "deref h (data a) = Some (Sites items)
                  \<and> selected_classes a = map class_label ns
                  \<and> show_traffic a \<and> stations_ok (hydrogen_stations a)"
    show "\<exists>fm rest. create_traffic_map h a = (h @ [FoliumMap fm], Inr (Some (length h)))
                         \<and> children fm = map Marker mks @ rest"
      by (rule create_traffic_map_builds [where keys = ?keys and th = "(top_t, mid_t)"
            and items = items])
        (use a assms(1) keys th mks in simp_all)
  qed
  from keys th mks loop len tiers whole show ?thesis by blast
qed

lemma sample_site_class_count:
  "class_count (sample_site nm c3 c6) 3 = c3"
  "class_count (sample_site nm c3 c6) 6 = c6"
  by (simp_all add: class_count_def class_field_def number_text_def get_default_def
      sample_site_def)

lemma sample_labels:
  "class_label 3 = ''Class 3''" "class_field 3 = ''Class3''"
  "class_label 6 = ''Class 6''" "class_field 6 = ''Class6''"
  by (simp_all add: class_label_def class_field_def number_text_def)

theorem tiers_partition_sites_witness:
  "[sample_site ''A'' 10 0, sample_site ''B'' 20 30, sample_site ''C'' 50 40] \<noteq> []
   \<and> has_classes (sample_site ''A'' 10 0) \<and> has_classes (sample_site ''B'' 20 30)
   \<and> has_classes (sample_site ''C'' 50 40)
   \<and> distinct [6::nat] \<and> set [6::nat] \<subseteq> {3..10}
   \<and> (\<exists>mks. map_raise (site_marker [''Class 6''] [''Class6''] (167 / 5) (99 / 5))
                [sample_site ''A'' 10 0, sample_site ''B'' 20 30, sample_site ''C'' 50 40]
               = Inr mks
        \<and> length mks = 3
        \<and> color (mks ! 0) = ''green'' \<and> color (mks ! 1) = ''orange''
        \<and> color (mks ! 2) = ''red'')"
proof -
  let ?items = "[sample_site ''A'' 10 0, sample_site ''B'' 20 30, sample_site ''C'' 50 40]"
  have ne: "?items \<noteq> []" by simp
  have hc: "\<forall>item \<in> set ?items. has_classes item" by (simp add: sample_site_has_classes)
  have d: "distinct [6::nat]" by simp
  have s: "set [6::nat] \<subseteq> {3..10}" by simp
  from tiers_partition_sites [OF ne hc d s] obtain top_t mid_t mks where
    th: "thresholds (map class_label [6]) (map class_field [6]) ?items = Inr (top_t, mid_t)"
    and mks: "map_raise (site_marker (map class_label [6]) (map class_field [6]) top_t mid_t)
                ?items = Inr mks"
    and len: "length mks = length ?items"
    and tiers: "\<forall>i < length ?items.
                 position (mks ! i) = (lat (location (site (?items ! i))),
                                       long (location (site (?items ! i))))
                 \<and> (color (mks ! i) = ''red''
                      \<longleftrightarrow> of_int (aggregate [6] (?items ! i)) > top_t)
                 \<and> (color (mks ! i) = ''orange''
                      \<longleftrightarrow> of_int (aggregate [6] (?items ! i)) > mid_t
                          \<and> \<not> of_int (aggregate [6] (?items ! i)) > top_t)
                 \<and> (color (mks ! i) = ''green''
                      \<longleftrightarrow> \<not> of_int (aggregate [6] (?items ! i)) > mid_t
                          \<and> \<not> of_int (aggregate [6] (?items ! i)) > top_t)"
    by blast
  from th have t: "top_t = 167 / 5" "mid_t = 99 / 5"
    by (simp_all add: sample_labels sample_thresholds_selected)
  have a: "aggregate [6] (sample_site nm c3 c6) = c6" for nm c3 c6
    by (simp add: aggregate_def sample_site_class_count)
  from tiers have "color (mks ! 0) = ''green''" "color (mks ! 1) = ''orange''"
    "color (mks ! 2) = ''red''"
    by (simp_all add: t a)
  with mks len show ?thesis
    by (simp add: sample_labels t sample_site_has_classes)
qed

text \<open>
  C3. For a site with the eight class counts and a selection of distinct classes from 3
  to 10, the count that decides the marker colour and is shown in the tooltip is the sum
  of the site's counts over the selected classes, and the sum of all eight class counts
  when nothing is selected; the values that enter the thresholds are the same sums.
\<close>

theorem aggregate_is_sum_over_selection:
  assumes "has_classes item" and "distinct ns" and "set ns \<subseteq> {3..10}"
  shows "\<exists>mk. class_keys (map class_label ns) = Inr (map class_field ns)
           \<and> site_marker (map class_label ns) (map class_field ns) top_t mid_t item = Inr mk
           \<and> (ns \<noteq> [] \<longrightarrow>
                sum_getitem item (map class_field ns) = Inr (\<Sum>n \<in> set ns. class_count item n)
                \<and> sum_get item (map class_field ns) = (\<Sum>n \<in> set ns. class_count item n)
                \<and> color mk = marker_color (\<Sum>n \<in> set ns. class_count item n) top_t mid_t
                \<and> tooltip mk = SelectionTip (roadname (site item)) (map class_label ns)
                                  (\<Sum>n \<in> set ns. class_count item n))
           \<and> (ns = [] \<longrightarrow>
                total_class3plus item
                  = Inr (class_count item 3 + class_count item 4 + class_count item 5
                         + class_count item 6 + class_count item 7 + class_count item 8
                         + class_count item 9 + class_count item 10)
                \<and> color mk
                    = marker_color (class_count item 3 + class_count item 4 + class_count item 5
                         + class_count item 6 + class_count item 7 + class_count item 8
                         + class_count item 9 + class_count item 10) top_t mid_t
                \<and> tooltip mk
                    = TotalTip (roadname (site item))
                        (class_count item 3 + class_count item 4 + class_count item 5
                         + class_count item 6 + class_count item 7 + class_count item 8
                         + class_count item 9 + class_count item 10))
           \<and> (\<forall>items. (\<forall>d \<in> set items. has_classes d) \<longrightarrow>
                thresholds (map class_label ns) (map class_field ns) items
                  = Inr (quantile_pair (map (aggregate ns) items)))
           \<and> aggregate ns item
               = (if ns = [] then class_count item 3 + class_count item 4 + class_count item 5
                         + class_count item 6 + class_count item 7 + class_count item 8
                         + class_count item 9 + class_count item 10
                  else (\<Sum>n \<in> set ns. class_count item n))"
proof -
  from site_marker_classified [OF assms(1,3,2), of top_t mid_t] obtain mk where
    mk: "site_marker (map class_label ns) (map class_field ns) top_t mid_t item = Inr mk"
    and col: "color mk = marker_color (aggregate ns item) top_t mid_t"
    and tip: "tooltip mk = (if ns = [] then TotalTip (roadname (site item)) (aggregate ns item)
                           else SelectionTip (roadname (site item)) (map class_label ns)
                                  (aggregate ns item))"
    by blast
  have keys: "class_keys (map class_label ns) = Inr (map class_field ns)"
    by (rule class_keys_of_labels [OF assms(3)])
  have agg: "aggregate ns item
               = (if ns = [] then class_count item 3 + class_count item 4 + class_count item 5
                         + class_count item 6 + class_count item 7 + class_count item 8
                         + class_count item 9 + class_count item 10
                  else (\<Sum>n \<in> set ns. class_count item n))"
    by (simp add: aggregate_def all_classes_total_unfold)
  have sel: "ns \<noteq> [] \<longrightarrow>
                sum_getitem item (map class_field ns) = Inr (\<Sum>n \<in> set ns. class_count item n)
                \<and> sum_get item (map class_field ns) = (\<Sum>n \<in> set ns. class_count item n)
                \<and> color mk = marker_color (\<Sum>n \<in> set ns. class_count item n) top_t mid_t
                \<and> tooltip mk = SelectionTip (roadname (site item)) (map class_label ns)
                                  (\<Sum>n \<in> set ns. class_count item n)"
  proof
    assume ne: "ns \<noteq> []"
    then have a: "aggregate ns item = (\<Sum>n \<in> set ns. class_count item n)"
      by (simp add: aggregate_def)
    from ne col tip show "sum_getitem item (map class_field ns)
                  = Inr (\<Sum>n \<in> set ns. class_count item n)
                \<and> sum_get item (map class_field ns) = (\<Sum>n \<in> set ns. class_count item n)
                \<and> color mk = marker_color (\<Sum>n \<in> set ns. class_count item n) top_t mid_t
                \<and> tooltip mk = SelectionTip (roadname (site item)) (map class_label ns)
                                  (\<Sum>n \<in> set ns. class_count item n)"
      by (simp add: sum_getitem_fields [OF assms(1,3)] sum_get_aggregate [OF assms(2) ne] a)
  qed
  have all: "ns = [] \<longrightarrow>
                total_class3plus item
                  = Inr (class_count item 3 + class_count item 4 + class_count item 5
                         + class_count item 6 + class_count item 7 + class_count item 8
                         + class_count item 9 + class_count item 10)
                \<and> color mk
                    = marker_color (class_count item 3 + class_count item 4 + class_count item 5
                         + class_count item 6 + class_count item 7 + class_count item 8
                         + class_count item 9 + class_count item 10) top_t mid_t
                \<and> tooltip mk
                    = TotalTip (roadname (site item))
                        (class_count item 3 + class_count item 4 + class_count item 5
                         + class_count item 6 + class_count item 7 + class_count item 8
                         + class_count item 9 + class_count item 10)"
  proof
    assume e: "ns = []"
    have a: "aggregate [] item = all_classes_total item"
      by (simp add: aggregate_def)
    from e col tip show "total_class3plus item
                  = Inr (class_count item 3 + class_count item 4 + class_count item 5
                         + class_count item 6 + class_count item 7 + class_count item 8
                         + class_count item 9 + class_count item 10)
                \<and> color mk
                    = marker_color (class_count item 3 + class_count item 4 + class_count item 5
                         + class_count item 6 + class_count item 7 + class_count item 8
                         + class_count item 9 + class_count item 10) top_t mid_t
                \<and> tooltip mk
                    = TotalTip (roadname (site item))
                        (class_count item 3 + class_count item 4 + class_count item 5
                         + class_count item 6 + class_count item 7 + class_count item 8
                         + class_count item 9 + class_count item 10)"
      by (simp add: total_of_has_classes [OF assms(1)] a
          all_classes_total_unfold [of item, symmetric])
  qed
  have th: "\<forall>items. (\<forall>d \<in> set items. has_classes d) \<longrightarrow>
                thresholds (map class_label ns) (map class_field ns) items
                  = Inr (quantile_pair (map (aggregate ns) items))"
    using thresholds_of_aggregates [OF _ assms(2)] by blast
  from keys mk sel all th agg show ?thesis by blast
qed

lemma sample_site_roadname: "roadname (site (sample_site nm c3 c6)) = nm"
  by (simp add: sample_site_def)

lemma sample_site_counts:
  "class_count (sample_site nm c3 c6) 4 = 0" "class_count (sample_site nm c3 c6) 5 = 0"
  "class_count (sample_site nm c3 c6) 7 = 0" "class_count (sample_site nm c3 c6) 8 = 0"
  "class_count (sample_site nm c3 c6) 9 = 0" "class_count (sample_site nm c3 c6) 10 = 0"
  by (simp_all add: class_count_def class_field_def number_text_def get_default_def
      sample_site_def)

theorem aggregate_is_sum_over_selection_witness:
  "has_classes (sample_site ''B'' 20 30) \<and> distinct [3, 6 :: nat] \<and> set [3, 6 :: nat] \<subseteq> {3..10}
   \<and> (\<exists>mk. site_marker [''Class 3'', ''Class 6''] [''Class3'', ''Class6''] 60 10
              (sample_site ''B'' 20 30) = Inr mk
         \<and> color mk = ''orange''
         \<and> tooltip mk = SelectionTip ''B'' [''Class 3'', ''Class 6''] 50)
   \<and> distinct ([] :: nat list)
   \<and> (\<exists>mk. site_marker [] [] 40 10 (sample_site ''B'' 20 30) = Inr mk
         \<and> color mk = ''red'' \<and> tooltip mk = TotalTip ''B'' 50)"
proof -
  have hc: "has_classes (sample_site ''B'' 20 30)" by (rule sample_site_has_classes)
  have d: "distinct [3, 6 :: nat]" by simp
  have s: "set [3, 6 :: nat] \<subseteq> {3..10}" by simp
  have d0: "distinct ([] :: nat list)" by simp
  have s0: "set ([] :: nat list) \<subseteq> {3..10}" by simp
  from aggregate_is_sum_over_selection [OF hc d s, of 60 10] obtain mk where
    "site_marker (map class_label [3, 6]) (map class_field [3, 6]) 60 10
       (sample_site ''B'' 20 30) = Inr mk"
    "color mk = marker_color (\<Sum>n \<in> set [3, 6]. class_count (sample_site ''B'' 20 30) n) 60 10"
    "tooltip mk = SelectionTip (roadname (site (sample_site ''B'' 20 30)))
                    (map class_label [3, 6])
                    (\<Sum>n \<in> set [3, 6]. class_count (sample_site ''B'' 20 30) n)"
    by auto
  then have 1: "\<exists>mk. site_marker [''Class 3'', ''Class 6''] [''Class3'', ''Class6''] 60 10
              (sample_site ''B'' 20 30) = Inr mk
         \<and> color mk = ''orange''
         \<and> tooltip mk = SelectionTip ''B'' [''Class 3'', ''Class 6''] 50"
    by (simp add: sample_labels sample_site_class_count marker_color_def sample_site_roadname)
  from aggregate_is_sum_over_selection [OF hc d0 s0, of 40 10] obtain mk0 where
    "site_marker (map class_label []) (map class_field []) 40 10
       (sample_site ''B'' 20 30) = Inr mk0"
    "color mk0 = marker_color (class_count (sample_site ''B'' 20 30) 3
        + class_count (sample_site ''B'' 20 30) 4 + class_count (sample_site ''B'' 20 30) 5
        + class_count (sample_site ''B'' 20 30) 6 + class_count (sample_site ''B'' 20 30) 7
        + class_count (sample_site ''B'' 20 30) 8 + class_count (sample_site ''B'' 20 30) 9
        + class_count (sample_site ''B'' 20 30) 10) 40 10"
    "tooltip mk0 = TotalTip (roadname (site (sample_site ''B'' 20 30)))
       (class_count (sample_site ''B'' 20 30) 3
        + class_count (sample_site ''B'' 20 30) 4 + class_count (sample_site ''B'' 20 30) 5
        + class_count (sample_site ''B'' 20 30) 6 + class_count (sample_site ''B'' 20 30) 7
        + class_count (sample_site ''B'' 20 30) 8 + class_count (sample_site ''B'' 20 30) 9
        + class_count (sample_site ''B'' 20 30) 10)"
    by auto
  then have 2: "\<exists>mk. site_marker [] [] 40 10 (sample_site ''B'' 20 30) = Inr mk
         \<and> color mk = ''red'' \<and> tooltip mk = TotalTip ''B'' 50"
    by (simp add: sample_site_class_count sample_site_counts marker_color_def
        sample_site_roadname)
  from hc d s d0 1 2 show ?thesis by blast
qed

lemma quantile_pair_single: "quantile_pair [x] = (of_int x, of_int x)"
  by (simp add: quantile_pair_def quantile_single)

text \<open>
  C6. For the empty site list \<open>create_traffic_map\<close> returns \<open>None\<close>, raises nothing and
  leaves the heap as it was. For a single site with the eight class counts and a selection
  of classes 3 to 10, both thresholds equal the site's aggregate, the site gets a marker
  of the lowest tier (green) and nothing is raised; with the traffic layer shown that
  marker is the first child of the returned map.
\<close>

theorem empty_and_single_site:
  "(deref h (data a) = Some (Sites []) \<longrightarrow> create_traffic_map h a = (h, Inr None))
   \<and> (has_classes item \<and> distinct ns \<and> set ns \<subseteq> {3..10} \<longrightarrow>
        (\<exists>mk. class_keys (map class_label ns) = Inr (map class_field ns)
           \<and> thresholds (map class_label ns) (map class_field ns) [item]
               = Inr (of_int (aggregate ns item), of_int (aggregate ns item))
           \<and> site_marker (map class_label ns) (map class_field ns)
                (of_int (aggregate ns item)) (of_int (aggregate ns item)) item = Inr mk
           \<and> color mk = ''green''
           \<and> (\<forall>m h'. add_traffic_markers (map class_label ns) (map class_field ns)
                        (of_int (aggregate ns item)) (of_int (aggregate ns item)) [item] m h'
                      = (add_to (Marker mk) m h', Inr ()))
           \<and> (\<forall>h' a'. deref h' (data a') = Some (Sites [item])
                  \<and> selected_classes a' = map class_label ns
                  \<and> show_traffic a' \<and> stations_ok (hydrogen_stations a')
                  \<longrightarrow> (\<exists>fm rest. create_traffic_map h' a'
                                    = (h' @ [FoliumMap fm], Inr (Some (length h')))
                         \<and> children fm = Marker mk # rest))))"
proof (intro conjI impI)
  assume "deref h (data a) = Some (Sites [])"
  then show "create_traffic_map h a = (h, Inr None)"
    by (simp add: create_traffic_map_def)
next
  assume a: "has_classes item \<and> distinct ns \<and> set ns \<subseteq> {3..10}"
  let ?sel = "map class_label ns" and ?keys = "map class_field ns"
  let ?t = "of_int (aggregate ns item) :: rat"
  have keys: "class_keys ?sel = Inr ?keys"
    using a by (simp add: class_keys_of_labels)
  have th: "thresholds ?sel ?keys [item] = Inr (?t, ?t)"
    using a thresholds_of_aggregates [of "[item]" ns] by (simp add: quantile_pair_single)
  from a site_marker_classified [of item ns ?t ?t] obtain mk where
    mk: "site_marker ?sel ?keys ?t ?t item = Inr mk"
    and col: "color mk = marker_color (aggregate ns item) ?t ?t" by blast
  have green: "color mk = ''green''" using col by (simp add: marker_color_def)
  have mks: "map_raise (site_marker ?sel ?keys ?t ?t) [item] = Inr [mk]"
    using mk by simp
  have loop: "\<forall>m h'. add_traffic_markers ?sel ?keys ?t ?t [item] m h'
                      = (add_to (Marker mk) m h', Inr ())"
    using mk by simp
  have whole: "\<forall>h' a'. deref h' (data a') = Some (Sites [item])
                  \<and> selected_classes a' = map class_label ns
                  \<and> show_traffic a' \<and> stations_ok (hydrogen_stations a')
                  \<longrightarrow> (\<exists>fm rest. create_traffic_map h' a'
                                    = (h' @ [FoliumMap fm], Inr (Some (length h')))
                         \<and> children fm = Marker mk # rest)"
  proof (intro allI impI)
    fix h' and a' :: map_args
    assume b: "deref h' (data a') = Some (Sites [item])
                  \<and> selected_classes a' = map class_label ns
                  \<and> show_traffic a' \<and> stations_ok (hydrogen_stations a')"
    have "\<exists>fm rest. create_traffic_map h' a' = (h' @ [FoliumMap fm], Inr (Some (length h')))
            \<and> children fm = map Marker [mk] @ rest"
      by (rule create_traffic_map_builds [where keys = ?keys and th = "(?t, ?t)"
            and items = "[item]"])
        (use b keys th mks in simp_all)
    then show "\<exists>fm rest. create_traffic_map h' a'
                                    = (h' @ [FoliumMap fm], Inr (Some (length h')))
                         \<and> children fm = Marker mk # rest" by simp
  qed
  from keys th mk green loop whole
  show "\<exists>mk. class_keys (map class_label ns) = Inr (map class_field ns)
           \<and> thresholds (map class_label ns) (map class_field ns) [item]
               = Inr (of_int (aggregate ns item), of_int (aggregate ns item))
           \<and> site_marker (map class_label ns) (map class_field ns)
                (of_int (aggregate ns item)) (of_int (aggregate ns item)) item = Inr mk
           \<and> color mk = ''green''
           \<and> (\<forall>m h'. add_traffic_markers (map class_label ns) (map class_field ns)
                        (of_int (aggregate ns item)) (of_int (aggregate ns item)) [item] m h'
                      = (add_to (Marker mk) m h', Inr ()))
           \<and> (\<forall>h' a'. deref h' (data a') = Some (Sites [item])
                  \<and> selected_classes a' = map class_label ns
                  \<and> show_traffic a' \<and> stations_ok (hydrogen_stations a')
                  \<longrightarrow> (\<exists>fm rest. create_traffic_map h' a'
                                    = (h' @ [FoliumMap fm], Inr (Some (length h')))
                         \<and> children fm = Marker mk # rest))"
    by blast
qed

lemma sample_args_fields:
  "data (sample_args sel) = 0" "selected_classes (sample_args sel) = sel"
  "show_traffic (sample_args sel)" "stations_ok (hydrogen_stations (sample_args sel))"
  by (simp_all add: sample_args_def stations_ok_def)

theorem empty_and_single_site_witness:
  "deref [Sites []] (data (sample_args [])) = Some (Sites [])
   \<and> create_traffic_map [Sites []] (sample_args []) = ([Sites []], Inr None)
   \<and> has_classes (sample_site ''B'' 20 30) \<and> distinct [6 :: nat] \<and> set [6 :: nat] \<subseteq> {3..10}
   \<and> thresholds [''Class 6''] [''Class6''] [sample_site ''B'' 20 30] = Inr (30, 30)
   \<and> (\<exists>mk. site_marker [''Class 6''] [''Class6''] 30 30 (sample_site ''B'' 20 30) = Inr mk
         \<and> color mk = ''green''
         \<and> (\<exists>fm rest. create_traffic_map [Sites [sample_site ''B'' 20 30]]
                         (sample_args [''Class 6''])
                       = ([Sites [sample_site ''B'' 20 30]] @ [FoliumMap fm], Inr (Some 1))
              \<and> children fm = Marker mk # rest))"
proof -
  have e: "deref [Sites []] (data (sample_args [])) = Some (Sites [])"
    by (simp add: deref_def sample_args_fields)
  have p: "has_classes (sample_site ''B'' 20 30) \<and> distinct [6 :: nat]
             \<and> set [6 :: nat] \<subseteq> {3..10}"
    by (simp add: sample_site_has_classes)
  have a: "aggregate [6] (sample_site ''B'' 20 30) = 30"
    by (simp add: aggregate_def sample_site_class_count)
  have single: "deref [Sites [sample_site ''B'' 20 30]] (data (sample_args [''Class 6'']))
                  = Some (Sites [sample_site ''B'' 20 30])
                \<and> selected_classes (sample_args [''Class 6'']) = map class_label [6]
                \<and> show_traffic (sample_args [''Class 6''])
                \<and> stations_ok (hydrogen_stations (sample_args [''Class 6'']))"
    by (simp add: deref_def sample_args_fields sample_labels)
  from empty_and_single_site [of "[Sites []]" "sample_args []" "sample_site ''B'' 20 30" "[6]"]
    e p
  have 1: "create_traffic_map [Sites []] (sample_args []) = ([Sites []], Inr None)"
    and "\<exists>mk. thresholds (map class_label [6]) (map class_field [6]) [sample_site ''B'' 20 30]
               = Inr (of_int (aggregate [6] (sample_site ''B'' 20 30)),
                      of_int (aggregate [6] (sample_site ''B'' 20 30)))
           \<and> site_marker (map class_label [6]) (map class_field [6])
                (of_int (aggregate [6] (sample_site ''B'' 20 30)))
                (of_int (aggregate [6] (sample_site ''B'' 20 30)))
                (sample_site ''B'' 20 30) = Inr mk
           \<and> color mk = ''green''
           \<and> (\<forall>h' a'. deref h' (data a') = Some (Sites [sample_site ''B'' 20 30])
                  \<and> selected_classes a' = map class_label [6]
                  \<and> show_traffic a' \<and> stations_ok (hydrogen_stations a')
                  \<longrightarrow> (\<exists>fm rest. create_traffic_map h' a'
                                    = (h' @ [FoliumMap fm], Inr (Some (length h')))
                         \<and> children fm = Marker mk # rest))"
    by blast+
  then obtain mk where
    th: "thresholds (map class_label [6]) (map class_field [6]) [sample_site ''B'' 20 30]
               = Inr (of_int (aggregate [6] (sample_site ''B'' 20 30)),
                      of_int (aggregate [6] (sample_site ''B'' 20 30)))"
    and mk: "site_marker (map class_label [6]) (map class_field [6])
                (of_int (aggregate [6] (sample_site ''B'' 20 30)))
                (of_int (aggregate [6] (sample_site ''B'' 20 30)))
                (sample_site ''B'' 20 30) = Inr mk"
    and green: "color mk = ''green''"
    and whole: "\<forall>h' a'. deref h' (data a') = Some (Sites [sample_site ''B'' 20 30])
                  \<and> selected_classes a' = map class_label [6]
                  \<and> show_traffic a' \<and> stations_ok (hydrogen_stations a')
                  \<longrightarrow> (\<exists>fm rest. create_traffic_map h' a'
                                    = (h' @ [FoliumMap fm], Inr (Some (length h')))
                         \<and> children fm = Marker mk # rest)"
    by blast
  from whole single
  have w: "\<exists>fm rest. create_traffic_map [Sites [sample_site ''B'' 20 30]]
                         (sample_args [''Class 6''])
                       = ([Sites [sample_site ''B'' 20 30]] @ [FoliumMap fm], Inr (Some 1))
              \<and> children fm = Marker mk # rest"
    by fastforce
  from th have th': "thresholds [''Class 6''] [''Class6''] [sample_site ''B'' 20 30]
      = Inr (30, 30)"
    by (simp add: a sample_labels)
  from mk have mk': "site_marker [''Class 6''] [''Class6''] 30 30 (sample_site ''B'' 20 30)
      = Inr mk"
    by (simp add: a sample_labels)
  from e 1 p th' mk' green w show ?thesis by blast
qed




subsection \<open>No mutation of the site records\<close>

lemma create_traffic_map_keeps:
  assumes "deref h r = Some ob"
  shows "deref (fst (create_traffic_map h a)) r = Some ob"
proof -
  obtain h' res where c: "create_traffic_map h a = (h', res)"
    by (cases "create_traffic_map h a")
  from assms have r: "r < length h" and ob: "h ! r = ob"
    by (simp_all add: deref_def split: if_splits)
  from create_traffic_map_frame [OF c] r ob have "r < length h'" "h' ! r = ob" by auto
  with c show ?thesis by (simp add: deref_def)
qed

text \<open>
  C8. Building the map with one class selection and then with another leaves the site
  list where it was and as it was, whatever the two calls return or raise: every object
  that existed before the calls, the site records among them, is unchanged; the calls
  only add new map objects to the heap.
\<close>

theorem inputs_not_mutated:
  assumes "deref h (data a) = Some (Sites items)"
  shows "let h1 = fst (create_traffic_map h (a\<lparr>selected_classes := sel1\<rparr>));
             h2 = fst (create_traffic_map h1 (a\<lparr>selected_classes := sel2\<rparr>))
         in deref h1 (data a) = Some (Sites items)
            \<and> deref h2 (data a) = Some (Sites items)
            \<and> length h \<le> length h2
            \<and> (\<forall>i < length h. h2 ! i = h ! i)"
proof -
  let ?a1 = "a\<lparr>selected_classes := sel1\<rparr>" and ?a2 = "a\<lparr>selected_classes := sel2\<rparr>"
  let ?h1 = "fst (create_traffic_map h ?a1)"
  let ?h2 = "fst (create_traffic_map ?h1 ?a2)"
  have 1: "deref ?h1 (data a) = Some (Sites items)"
    by (rule create_traffic_map_keeps [OF assms])
  have 2: "deref ?h2 (data a) = Some (Sites items)"
    by (rule create_traffic_map_keeps [OF 1])
  have f1: "length h \<le> length ?h1 \<and> (\<forall>i < length h. ?h1 ! i = h ! i)"
    by (rule create_traffic_map_frame [of h ?a1 ?h1 "snd (create_traffic_map h ?a1)"]) simp
  have f2: "length ?h1 \<le> length ?h2 \<and> (\<forall>i < length ?h1. ?h2 ! i = ?h1 ! i)"
    by (rule create_traffic_map_frame [of ?h1 ?a2 ?h2 "snd (create_traffic_map ?h1 ?a2)"]) simp
  from f1 f2 have 3: "length h \<le> length ?h2" by linarith
  from f1 f2 have 4: "\<forall>i < length h. ?h2 ! i = h ! i" by auto
  from 1 2 3 4 show ?thesis by (simp add: Let_def)
qed

lemma sample_run_all:
  "\<exists>fm. create_traffic_map
          [Sites [sample_site ''A'' 10 0, sample_site ''B'' 20 30, sample_site ''C'' 50 40]]
          (sample_args [])
        = ([Sites [sample_site ''A'' 10 0, sample_site ''B'' 20 30, sample_site ''C'' 50 40],
            FoliumMap fm], Inr (Some 1))"
proof -
  let ?items = "[sample_site ''A'' 10 0, sample_site ''B'' 20 30, sample_site ''C'' 50 40]"
  have "\<forall>item \<in> set ?items. \<exists>mk. site_marker [] [] (318 / 5) (182 / 5) item = Inr mk \<and> True"
    by (simp add: site_marker_all sample_site_has_classes)
  from map_raise_all_Inr [where P = "\<lambda>_ _. True", OF this]
  obtain mks where mks: "map_raise (site_marker [] [] (318 / 5) (182 / 5)) ?items = Inr mks"
    by blast
  have "\<exists>fm rest. create_traffic_map [Sites ?items] (sample_args [])
           = ([Sites ?items] @ [FoliumMap fm], Inr (Some (length [Sites ?items])))
           \<and> children fm = map Marker mks @ rest"
    by (rule create_traffic_map_builds [where keys = "[]" and th = "(318 / 5, 182 / 5)"
          and items = ?items])
      (simp_all add: sample_args_fields deref_def class_keys_def sample_thresholds_all mks
        del: map_raise.simps)
  then show ?thesis by auto
qed

theorem inputs_not_mutated_witness:
  "deref [Sites [sample_site ''A'' 10 0, sample_site ''B'' 20 30, sample_site ''C'' 50 40]]
     (data (sample_args []))
     = Some (Sites [sample_site ''A'' 10 0, sample_site ''B'' 20 30, sample_site ''C'' 50 40])
   \<and> (\<exists>fm. create_traffic_map
          [Sites [sample_site ''A'' 10 0, sample_site ''B'' 20 30, sample_site ''C'' 50 40]]
          (sample_args [])
        = ([Sites [sample_site ''A'' 10 0, sample_site ''B'' 20 30, sample_site ''C'' 50 40],
            FoliumMap fm], Inr (Some 1)))
   \<and> deref (fst (create_traffic_map (fst (create_traffic_map
        [Sites [sample_site ''A'' 10 0, sample_site ''B'' 20 30, sample_site ''C'' 50 40]]
        (sample_args [])))
        (sample_args [''Class 6'']))) 0
     = Some (Sites [sample_site ''A'' 10 0, sample_site ''B'' 20 30, sample_site ''C'' 50 40])"
proof -
  let ?items = "[sample_site ''A'' 10 0, sample_site ''B'' 20 30, sample_site ''C'' 50 40]"
  have d: "deref [Sites ?items] (data (sample_args [])) = Some (Sites ?items)"
    by (simp add: deref_def sample_args_fields)
  have u: "(sample_args [])\<lparr>selected_classes := sel\<rparr> = sample_args sel" for sel
    by (simp add: sample_args_def)
  from inputs_not_mutated [OF d, of "[]" "[''Class 6'']"]
  have "deref (fst (create_traffic_map (fst (create_traffic_map [Sites ?items] (sample_args [])))
        (sample_args [''Class 6'']))) 0 = Some (Sites ?items)"
    by (simp add: Let_def u sample_args_fields)
  with d sample_run_all show ?thesis by blast
qed

end
